theory Spec2Isabelle
  imports Complex_Main "HOL-Library.AList" "HOL-Library.Multiset"
begin

section \<open>Conventions of the embedding\<close>

text \<open>
  The bot is written in Python.  Its floats are modelled as exact reals, its unbounded
  integers as \<open>int\<close>, its dictionaries as maps or (where insertion order matters) as
  association lists, and every exception as a value of \<open>exn\<close>: a function that can
  raise returns \<open>exn + 'a\<close> with \<open>Inl\<close> for the exception.  Wall-clock readings
  (\<open>time.time()\<close>) and the answers of the exchange are parameters of the functions.
  Logging and the console sink are left out: they return nothing that is used.

  Exact reals do not round.  The code rounds after every float operation, so a floor, a
  rounding or a comparison of the code can differ from the one computed here when its
  argument lies within rounding error of a boundary.  The statements about one concrete
  input below are made at inputs where the float computation and the exact one agree.
\<close>

subsection \<open>Exceptions (exceptions.py and the Python built-ins that occur)\<close>

datatype exn =
    BinanceAPIException "int option"  \<comment> \<open>the venue's error, with \<open>getattr(e, 'code', None)\<close>\<close>
  | ClientError
  | JSONDecodeError
  | ValueError
  | TypeError
  | ZeroDivisionError
  | KeyError
  | IndexError
  | UnboundLocalError
  | OtherException
  | CustomError
  | NetworkError
  | APIError
  | AccountError
  | InputError
  | StrategyError

definition bind_exn :: "exn + 'a \<Rightarrow> ('a \<Rightarrow> exn + 'b) \<Rightarrow> exn + 'b" where
  "bind_exn m f = (case m of Inl e \<Rightarrow> Inl e | Inr v \<Rightarrow> f v)"

definition py_div :: "real \<Rightarrow> real \<Rightarrow> exn + real" where
  \<comment> \<open>Python's \<open>/\<close>: a zero divisor raises.\<close>
  "py_div a b = (if b = 0 then Inl ZeroDivisionError else Inr (a / b))"

definition py_int :: "real \<Rightarrow> int" where
  \<comment> \<open>\<open>int(x)\<close> truncates towards zero.\<close>
  "py_int x = (if 0 \<le> x then \<lfloor>x\<rfloor> else \<lceil>x\<rceil>)"

definition round_half_even :: "real \<Rightarrow> int" where
  "round_half_even x =
     (let f = \<lfloor>x\<rfloor>; d = x - of_int f
      in if d < 1 / 2 then f else if 1 / 2 < d then f + 1 else if even f then f else f + 1)"

definition py_round :: "real \<Rightarrow> nat \<Rightarrow> real" where
  \<comment> \<open>\<open>round(x, n)\<close> for \<open>n \<ge> 0\<close>: to \<open>n\<close> decimals, ties to even.\<close>
  "py_round x n = of_int (round_half_even (x * 10 ^ n)) / 10 ^ n"

subsection \<open>Strategy parameters (strategy.py, config.py)\<close>

text \<open>
  \<open>StrategyParams.get\<close> reads a dictionary that \<open>DEFAULT_PARAMS\<close> fills with a value of
  fixed type for every key; the record has the keys that the modelled functions read.
\<close>

record strategy =
  position_size_type :: string
  fixed_position_size :: real
  account_risk_per_trade :: real
  static_sl_percent :: real
  max_leverage :: int
  auto_leverage :: bool
  default_leverage :: int
  max_drawdown :: real
  max_open_positions :: int
  max_daily_trades :: int
  profit_threshold_daily :: real
  loss_threshold_daily :: real
  max_account_risk :: real
  trailing_sl :: bool
  trailing_sl_distance :: real
  trailing_sl_interval :: real
  partial_close_enabled :: bool
  partial_close_threshold :: real
  partial_close_percentage :: real

subsection \<open>Risk manager (risk.py)\<close>

record symbol_info =
  price_precision :: nat
  qty_precision :: nat
  min_qty :: real
  tick_size :: real
  min_notional :: real

record balance =
  wallet_balance :: real
  unrealized_pnl :: real
  available_balance :: real

record position =
  symbol :: string
  side :: string
  amount :: real
  entry_price :: real
  mark_price :: real
  leverage :: int

record daily_stats =
  total_pnl :: real
  trade_count :: int
  win_count :: int
  loss_count :: int

record trade_info =
  trade_symbol :: string
  trade_side :: string
  trade_quantity :: real
  trade_entry_price :: real
  exit_price :: "real option"
  pnl :: "real option"
  trade_type :: string

record risk_manager =
  strategy :: strategy
  balances :: "string \<rightharpoonup> balance"
  open_positions :: "position list"
  position_history :: "trade_info list"
  daily_pnl :: "string \<rightharpoonup> daily_stats"
  drawdown :: real
  initial_balance :: real
  peak_balance :: real
  protection_mode :: bool

definition get_total_balance :: "risk_manager \<Rightarrow> real" where
  "get_total_balance rm =
     (case balances rm ''USDT'' of
        Some b \<Rightarrow> wallet_balance b + unrealized_pnl b
      | None \<Rightarrow> 0)"

definition get_available_balance :: "risk_manager \<Rightarrow> real" where
  "get_available_balance rm =
     (case balances rm ''USDT'' of Some b \<Rightarrow> available_balance b | None \<Rightarrow> 0)"

text \<open>
  \<open>calculate_position_size\<close>, lines 150 to 196: the notional in USDT and the leverage.
  The leverage is a local variable that only the risk-based branch assigns, so the stage
  returns it as an option: \<open>None\<close> is the unassigned variable of the FIXED branch.
\<close>

definition stop_loss_pct :: "strategy \<Rightarrow> real \<Rightarrow> real \<Rightarrow> string \<Rightarrow> real" where
  "stop_loss_pct s entry stop signal_type =
     (if entry = 0 \<or> stop = 0 then static_sl_percent s
      else if signal_type = ''LONG'' then \<bar>(entry - stop) / entry\<bar> * 100
      else \<bar>(stop - entry) / entry\<bar> * 100)"

definition sizing_stage ::
  "risk_manager \<Rightarrow> real \<Rightarrow> real \<Rightarrow> string \<Rightarrow> real \<Rightarrow> exn + (real \<times> int option)" where
  "sizing_stage rm entry stop signal_type signal_strength =
     (let s = strategy rm; available = get_available_balance rm in
      if position_size_type s = ''FIXED'' then Inr (fixed_position_size s, None)
      else
        let account_risk_pct = account_risk_per_trade s;
            adjusted_risk = min (account_risk_pct * (signal_strength / 100) * 1.5) account_risk_pct;
            risk_amount = (available * adjusted_risk) / 100;
            sl_pct = stop_loss_pct s entry stop signal_type
        in bind_exn
             (if auto_leverage s
              then bind_exn (py_div 10 sl_pct)
                     (\<lambda>q. Inr (py_int (max 1 (min (of_int (max_leverage s)) q))))
              else Inr (default_leverage s))
             (\<lambda>target_leverage.
                bind_exn (py_div (risk_amount * of_int target_leverage) (sl_pct / 100))
                  (\<lambda>position_size_usdt.
                     Inr (if position_size_type s = ''DYNAMIC'' \<and> 0 < length (open_positions rm)
                          then position_size_usdt
                               * max 0.2 (1.0 - of_nat (length (open_positions rm)) * 0.2)
                          else position_size_usdt,
                          Some target_leverage))))"

text \<open>
  Lines 198 to 224.  The quotient by the lot step is floored as an exact real.  In the
  code it is a float quotient: for 125 units and the lot step 0.00001 it is
  12499999.999999998, and the code returns one step less than the value computed here.
\<close>

definition read_leverage :: "int option \<Rightarrow> exn + int" where
  \<comment> \<open>reading the local variable \<open>target_leverage\<close>\<close>
  "read_leverage v = (case v of None \<Rightarrow> Inl UnboundLocalError | Some l \<Rightarrow> Inr l)"

definition cap_position_size :: "real \<Rightarrow> real \<Rightarrow> real" where
  \<comment> \<open>lines 205 and 206: at most a quarter of the available balance\<close>
  "cap_position_size available position_size_usdt = min position_size_usdt (available * 0.25)"

definition quantity_stage ::
  "symbol_info \<Rightarrow> real \<Rightarrow> real \<Rightarrow> real \<Rightarrow> int option \<Rightarrow> exn + (real \<times> int)" where
  "quantity_stage info available entry position_size_usdt lev =
     (if position_size_usdt < min_notional info
      then bind_exn (read_leverage lev) (\<lambda>l. Inr (0, l))
      else
        bind_exn (py_div (cap_position_size available position_size_usdt) entry)
          (\<lambda>quantity.
             bind_exn (read_leverage lev)
               (\<lambda>l. bind_exn (py_div (quantity * of_int l) (min_qty info))
                  (\<lambda>steps.
                     Inr (py_round (of_int \<lfloor>steps\<rfloor> * min_qty info) (qty_precision info), l)))))"

text \<open>
  The body of the \<open>try\<close> block.  \<open>precision\<close> is what \<open>client.get_symbol_precision\<close>
  answers when it is awaited: a dictionary, or an exception.
\<close>

definition position_size_body ::
  "risk_manager \<Rightarrow> exn + symbol_info \<Rightarrow> real \<Rightarrow> real \<Rightarrow> string \<Rightarrow> real \<Rightarrow> exn + (real \<times> int)" where
  "position_size_body rm precision entry stop signal_type signal_strength =
     (if protection_mode rm then Inr (0, default_leverage (strategy rm))
      else
        bind_exn precision
          (\<lambda>info.
             bind_exn (sizing_stage rm entry stop signal_type signal_strength)
               (\<lambda>(position_size_usdt, lev).
                  quantity_stage info (get_available_balance rm) entry position_size_usdt lev)))"

definition calculate_position_size ::
  "risk_manager \<Rightarrow> exn + symbol_info \<Rightarrow> real \<Rightarrow> real \<Rightarrow> string \<Rightarrow> real \<Rightarrow> real \<times> int" where
  \<comment> \<open>\<open>except Exception\<close>: any failure of the body becomes \<open>(0, default_leverage)\<close>\<close>
  "calculate_position_size rm precision entry stop signal_type signal_strength =
     (case position_size_body rm precision entry stop signal_type signal_strength of
        Inr r \<Rightarrow> r
      | Inl e \<Rightarrow> (0, default_leverage (strategy rm)))"

text \<open>
  \<open>_calculate_total_account_risk\<close>: the loop over the open positions, with the running
  total as accumulator.
\<close>

fun account_risk_loop :: "real \<Rightarrow> position list \<Rightarrow> real \<Rightarrow> exn + real" where
  "account_risk_loop total_balance [] total_risk = Inr total_risk"
| "account_risk_loop total_balance (pos # rest) total_risk =
     bind_exn (py_div \<bar>amount pos * mark_price pos\<bar> (total_balance * of_int (leverage pos)))
       (\<lambda>q. account_risk_loop total_balance rest (total_risk + q * 100))"

definition calculate_total_account_risk :: "risk_manager \<Rightarrow> exn + real" where
  "calculate_total_account_risk rm =
     (let total_balance = get_total_balance rm in
      if total_balance \<le> 0 then Inr 0
      else account_risk_loop total_balance (open_positions rm) 0)"

text \<open>
  \<open>check_risk_limits\<close>; \<open>today\<close> is the key \<open>datetime.now().strftime('%Y-%m-%d')\<close>.
\<close>

definition risk_limits_body :: "risk_manager \<Rightarrow> string \<Rightarrow> exn + bool" where
  "risk_limits_body rm today =
     (let s = strategy rm in
      if protection_mode rm then Inr False
      else if max_drawdown s < drawdown rm then Inr False
      else if max_open_positions s \<le> int (length (open_positions rm)) then Inr False
      else
        let daily_trade_count = (case daily_pnl rm today of Some d \<Rightarrow> trade_count d | None \<Rightarrow> 0) in
        if max_daily_trades s \<le> daily_trade_count then Inr False
        else
          let daily_profit = (case daily_pnl rm today of Some d \<Rightarrow> total_pnl d | None \<Rightarrow> 0);
              daily_profit_pct =
                (if 0 < initial_balance rm then (daily_profit / initial_balance rm) * 100 else 0)
          in
          if profit_threshold_daily s < daily_profit_pct then Inr False
          else if daily_profit_pct < - loss_threshold_daily s then Inr False
          else
            bind_exn (calculate_total_account_risk rm)
              (\<lambda>account_risk. if max_account_risk s < account_risk then Inr False else Inr True))"

definition check_risk_limits :: "risk_manager \<Rightarrow> string \<Rightarrow> bool" where
  "check_risk_limits rm today =
     (case risk_limits_body rm today of Inr b \<Rightarrow> b | Inl e \<Rightarrow> False)"

text \<open>
  \<open>calculate_stop_loss\<close>; \<open>precision\<close> is the answer of \<open>get_symbol_precision\<close>.  When
  the \<open>try\<close> block raises, the \<open>except\<close> clause returns a price from the static percentage
  that is neither clamped nor rounded.
\<close>

definition calculate_stop_loss ::
  "risk_manager \<Rightarrow> exn + symbol_info \<Rightarrow> real \<Rightarrow> string \<Rightarrow> real \<Rightarrow> real" where
  "calculate_stop_loss rm precision entry signal_type market_volatility =
     (case precision of
        Inr info \<Rightarrow>
          let static_sl_pct = static_sl_percent (strategy rm);
              adjusted_sl_pct = max 0.5 (min 10.0 (static_sl_pct * market_volatility));
              sl_price = (if signal_type = ''LONG''
                          then entry * (1 - adjusted_sl_pct / 100)
                          else entry * (1 + adjusted_sl_pct / 100))
          in py_round sl_price (price_precision info)
      | Inl e \<Rightarrow>
          let sl_pct = static_sl_percent (strategy rm) in
          if signal_type = ''LONG''
          then entry * (1 - sl_pct / 100)
          else entry * (1 + sl_pct / 100))"

subsection \<open>End-to-end scenario A\<close>

definition default_strategy :: strategy where
  \<comment> \<open>the values of \<open>DEFAULT_PARAMS\<close> when no environment variable is set\<close>
  "default_strategy =
     \<lparr> position_size_type = ''RISK_BASED'', fixed_position_size = 100,
       account_risk_per_trade = 1, static_sl_percent = 2, max_leverage = 10,
       auto_leverage = True, default_leverage = 3, max_drawdown = 10,
       max_open_positions = 5, max_daily_trades = 20, profit_threshold_daily = 3,
       loss_threshold_daily = 5, max_account_risk = 5, trailing_sl = True,
       trailing_sl_distance = 1, trailing_sl_interval = 0.5, partial_close_enabled = True,
       partial_close_threshold = 2, partial_close_percentage = 50 \<rparr>"

definition scenario_A_rm :: risk_manager where
  "scenario_A_rm =
     \<lparr> strategy = default_strategy,
       balances = [''USDT'' \<mapsto>
         \<lparr> wallet_balance = 10000, unrealized_pnl = 0, available_balance = 10000 \<rparr>],
       open_positions = [], position_history = [], daily_pnl = Map.empty, drawdown = 0,
       initial_balance = 10000,
       peak_balance = 10000, protection_mode = False \<rparr>"

definition scenario_A_info :: symbol_info where
  "scenario_A_info =
     \<lparr> price_precision = 2, qty_precision = 3, min_qty = 0.001, tick_size = 0.01,
       min_notional = 5 \<rparr>"

section \<open>Exchange gateway (binance_client.py)\<close>

text \<open>
  What the wrapped synchronous call does at one attempt: it returns a value or raises.
  The exchange is a parameter, a function from the attempt number to this outcome.
\<close>

datatype 'a outcome = Returns 'a | Raises exn

datatype sleep = RateLimitSleep real | BackoffSleep int

record binance_client =
  max_retries :: int
  last_api_call_time :: real
  min_time_between_calls :: real

text \<open>
  The \<open>for attempt in range(1, self.max_retries + 1)\<close> loop of \<open>api_retry\<close>, over the
  list of attempt numbers still to run.  The trace counts the calls made and collects the
  arguments of \<open>asyncio.sleep\<close>.  When the list is exhausted the function falls off its
  end, which in Python returns \<open>None\<close>: the result \<open>Inr None\<close>.
\<close>

fun retry_loop ::
  "int \<Rightarrow> (int \<Rightarrow> 'a outcome) \<Rightarrow> int list \<Rightarrow> nat \<times> sleep list
     \<Rightarrow> (exn + 'a option) \<times> nat \<times> sleep list" where
  "retry_loop retries func [] (n, sl) = (Inr None, n, sl)"
| "retry_loop retries func (attempt # rest) (n, sl) =
     (case func attempt of
        Returns result \<Rightarrow> (Inr (Some result), Suc n, sl)
      | Raises (BinanceAPIException error_code) \<Rightarrow>
          if error_code = Some (- 1021) \<or> error_code = Some (- 1022)
            then retry_loop retries func rest (Suc n, sl)
          else if error_code = Some (- 1003)
            then retry_loop retries func rest (Suc n, sl @ [BackoffSleep (2 ^ nat attempt * 2)])
          else if error_code = Some (- 2010) then (Inl AccountError, Suc n, sl)
          else if error_code = Some (- 2011) then (Inl APIError, Suc n, sl)
          else if error_code = Some (- 1121) then (Inl InputError, Suc n, sl)
          else if attempt < retries
            then retry_loop retries func rest (Suc n, sl @ [BackoffSleep (2 ^ nat attempt)])
          else (Inl APIError, Suc n, sl)
      | Raises e \<Rightarrow>
          if attempt < retries
            then retry_loop retries func rest (Suc n, sl @ [BackoffSleep (2 ^ nat attempt)])
          else (Inl CustomError, Suc n, sl))"

definition rate_limit_gate :: "binance_client \<Rightarrow> real \<Rightarrow> sleep list" where
  \<comment> \<open>lines 103 to 105; \<open>now\<close> is the reading of \<open>time.time()\<close>\<close>
  "rate_limit_gate c now =
     (let time_since_last_call = now - last_api_call_time c in
      if time_since_last_call < min_time_between_calls c
      then [RateLimitSleep (min_time_between_calls c - time_since_last_call)]
      else [])"

definition api_retry_undecorated ::
  "binance_client \<Rightarrow> real \<Rightarrow> (int \<Rightarrow> 'a outcome) \<Rightarrow> (exn + 'a option) \<times> nat \<times> sleep list" where
  "api_retry_undecorated c now func =
     retry_loop (max_retries c) func [1 .. max_retries c] (0, rate_limit_gate c now)"

definition timer_decorator :: "exn + 'a \<Rightarrow> exn + 'a" where
  \<comment> \<open>measures the elapsed time and re-raises what it caught\<close>
  "timer_decorator r = r"

definition exception_handler :: "exn + 'a \<Rightarrow> exn + 'a" where
  \<comment> \<open>the three \<open>except\<close> clauses in their order; the last one catches every other
     \<open>Exception\<close>, the classes of exceptions.py included\<close>
  "exception_handler r =
     (case r of
        Inr v \<Rightarrow> Inr v
      | Inl (BinanceAPIException code) \<Rightarrow> Inl NetworkError
      | Inl ClientError \<Rightarrow> Inl NetworkError
      | Inl JSONDecodeError \<Rightarrow> Inl InputError
      | Inl ValueError \<Rightarrow> Inl InputError
      | Inl TypeError \<Rightarrow> Inl InputError
      | Inl e \<Rightarrow> Inl CustomError)"

definition api_retry ::
  "binance_client \<Rightarrow> real \<Rightarrow> (int \<Rightarrow> 'a outcome) \<Rightarrow> (exn + 'a option) \<times> nat \<times> sleep list" where
  \<comment> \<open>\<open>@exception_handler @timer_decorator async def api_retry\<close>\<close>
  "api_retry c now func =
     (case api_retry_undecorated c now func of
        (r, trace) \<Rightarrow> (exception_handler (timer_decorator r), trace))"

definition default_client :: binance_client where
  \<comment> \<open>\<open>BinanceClient.__init__\<close> with its default \<open>max_retries=5\<close>\<close>
  "default_client = \<lparr> max_retries = 5, last_api_call_time = 0, min_time_between_calls = 0.05 \<rparr>"

definition always_raises :: "exn \<Rightarrow> int \<Rightarrow> unit outcome" where
  "always_raises e attempt = Raises e"

section \<open>Opportunity pool (market_data.py, class DynamicTargetPool)\<close>

text \<open>
  \<open>self.targets\<close> is a Python dictionary, which keeps its keys in insertion order:
  an association list, where \<open>AList.update\<close> overwrites a key in place and appends a new
  key at the end, and \<open>AList.delete\<close> is \<open>del\<close>.  The data of one symbol is a dictionary
  from field names to numbers; the nested indicator snapshot is not modelled.
\<close>

type_synonym target_data = "string \<rightharpoonup> real"

record failure_record =
  failure_count :: int
  last_failure :: real
  reasons :: "string list"

record success_record =
  success_count :: int
  last_success :: real
  success_data :: "(string \<times> real) list"

record pool =
  targets :: "(string \<times> target_data) list"
  max_pool_size :: int
  attempt_failures :: "string \<rightharpoonup> failure_record"
  success_history :: "string \<rightharpoonup> success_record"

definition new_pool :: "int \<Rightarrow> pool" where
  "new_pool capacity =
     \<lparr> targets = [], max_pool_size = capacity, attempt_failures = Map.empty,
       success_history = Map.empty \<rparr>"

definition score_of :: "target_data \<Rightarrow> real" where
  \<comment> \<open>\<open>data.get('score', 0)\<close>\<close>
  "score_of d = (case d ''score'' of Some s \<Rightarrow> s | None \<Rightarrow> 0)"

definition store_target ::
  "real \<Rightarrow> string \<Rightarrow> target_data \<Rightarrow> (string \<times> target_data) list \<Rightarrow> (string \<times> target_data) list" where
  \<comment> \<open>lines 51 to 58: merge into the entry of a known symbol, or insert a new one\<close>
  "store_target current_time symb data ts =
     (case map_of ts symb of
        Some old \<Rightarrow> AList.update symb ((old ++ data)(''last_update'' \<mapsto> current_time)) ts
      | None \<Rightarrow> AList.update symb (data(''last_update'' \<mapsto> current_time)) ts)"

text \<open>
  The eviction loop \<open>for i in range(to_remove)\<close>: \<open>sorted_targets\<close> is the snapshot
  sorted by score, and an index beyond it raises \<open>IndexError\<close> with the deletions made so
  far kept.
\<close>

fun evict_loop ::
  "(string \<times> target_data) list \<Rightarrow> nat list \<Rightarrow> (string \<times> target_data) list
     \<Rightarrow> exn option \<times> (string \<times> target_data) list" where
  "evict_loop sorted_targets [] ts = (None, ts)"
| "evict_loop sorted_targets (i # rest) ts =
     (if i < length sorted_targets
      then evict_loop sorted_targets rest (AList.delete (fst (sorted_targets ! i)) ts)
      else (Some IndexError, ts))"

definition add_or_update_target ::
  "real \<Rightarrow> string \<Rightarrow> target_data \<Rightarrow> pool \<Rightarrow> exn option \<times> pool" where
  "add_or_update_target current_time symb data p =
     (let ts = store_target current_time symb data (targets p) in
      if max_pool_size p < int (length ts) then
        let sorted_targets = sort_key (\<lambda>x. score_of (snd x)) ts;
            to_remove = nat (int (length ts) - max_pool_size p)
        in case evict_loop sorted_targets [0 ..< to_remove] ts of
             (e, ts') \<Rightarrow> (e, p\<lparr>targets := ts'\<rparr>)
      else (None, p\<lparr>targets := ts\<rparr>))"

fun run_upserts :: "(real \<times> string \<times> target_data) list \<Rightarrow> pool \<Rightarrow> pool" where
  \<comment> \<open>a sequence of calls, each on the pool the previous one left\<close>
  "run_upserts [] p = p"
| "run_upserts ((current_time, symb, data) # rest) p =
     run_upserts rest (snd (add_or_update_target current_time symb data p))"

definition record_attempt_failure :: "real \<Rightarrow> string \<Rightarrow> string \<Rightarrow> pool \<Rightarrow> exn option \<times> pool" where
  "record_attempt_failure current_time symb reason p =
     (let f = (case attempt_failures p symb of
                 None \<Rightarrow> \<lparr> failure_count = 1, last_failure = current_time, reasons = [reason] \<rparr>
               | Some f0 \<Rightarrow> \<lparr> failure_count = failure_count f0 + 1, last_failure = current_time,
                            reasons = reasons f0 @ [reason] \<rparr>);
          p1 = p\<lparr>attempt_failures := (attempt_failures p)(symb \<mapsto> f)\<rparr>
      in case map_of (targets p1) symb of
           None \<Rightarrow> (None, p1)
         | Some d \<Rightarrow>
             let penalty_factor = min 0.5 (of_int (failure_count f) * 0.1) in
             (case d ''score'' of
                None \<Rightarrow> (Some KeyError, p1)
              | Some sc \<Rightarrow>
                  (None, p1\<lparr>targets :=
                     AList.update symb (d(''score'' \<mapsto> sc * (1 - penalty_factor))) (targets p1)\<rparr>)))"

definition record_success ::
  "real \<Rightarrow> string \<Rightarrow> (string \<times> real) list option \<Rightarrow> pool \<Rightarrow> exn option \<times> pool" where
  "record_success current_time symb data p =
     (let h = (case success_history p symb of
                 None \<Rightarrow> \<lparr> success_count = 1, last_success = current_time,
                          success_data = (case data of Some d \<Rightarrow> d | None \<Rightarrow> []) \<rparr>
               | Some h0 \<Rightarrow> \<lparr> success_count = success_count h0 + 1, last_success = current_time,
                            success_data = (case data of
                                              Some d \<Rightarrow> if d = [] then success_data h0 else d
                                            | None \<Rightarrow> success_data h0) \<rparr>);
          p1 = p\<lparr>success_history := (success_history p)(symb \<mapsto> h)\<rparr>
      in case map_of (targets p1) symb of
           None \<Rightarrow> (None, p1)
         | Some d \<Rightarrow>
             let bonus_factor = min 0.3 (of_int (success_count h) * 0.05) in
             (case d ''score'' of
                None \<Rightarrow> (Some KeyError, p1)
              | Some sc \<Rightarrow>
                  (None, p1\<lparr>targets :=
                     AList.update symb (d(''score'' \<mapsto> sc * (1 + bonus_factor))) (targets p1)\<rparr>)))"

definition is_symbol_cooling_down :: "real \<Rightarrow> string \<Rightarrow> pool \<Rightarrow> bool" where
  "is_symbol_cooling_down current_time symb p =
     (case attempt_failures p symb of
        None \<Rightarrow> False
      | Some f \<Rightarrow>
          let cooling_period = min 3600 (failure_count f * 300)
          in current_time - last_failure f < of_int cooling_period)"

definition py_prefix :: "int \<Rightarrow> 'a list \<Rightarrow> 'a list" where
  \<comment> \<open>the slice \<open>xs[:n]\<close>; a negative \<open>n\<close> drops from the end\<close>
  "py_prefix n xs =
     (if 0 \<le> n then take (nat n) xs else take (nat (int (length xs) + n)) xs)"

definition get_top_targets :: "real \<Rightarrow> int \<Rightarrow> bool \<Rightarrow> pool \<Rightarrow> string list" where
  \<comment> \<open>\<open>n\<close> is the parameter \<open>count\<close>; \<open>sorted(..., reverse=True)\<close> is stable: equal
     scores keep their order\<close>
  "get_top_targets current_time n exclude_cooling p =
     (let available_targets =
            filter (\<lambda>x. \<not> (exclude_cooling \<and> is_symbol_cooling_down current_time (fst x) p))
              (targets p);
          sorted_targets = sort_key (\<lambda>x. - score_of (snd x)) available_targets;
          top_targets = py_prefix n sorted_targets
      in map fst top_targets)"

section \<open>Position manager (position.py) and the ledger it writes (risk.py)\<close>

definition get_position_for_symbol :: "risk_manager \<Rightarrow> string \<Rightarrow> position option" where
  "get_position_for_symbol rm symb = find (\<lambda>pos. symbol pos = symb) (open_positions rm)"

definition calculate_position_pnl_percent :: "position \<Rightarrow> real \<Rightarrow> exn + real" where
  "calculate_position_pnl_percent pos current_price =
     (if side pos = ''LONG''
      then bind_exn (py_div (current_price - entry_price pos) (entry_price pos)) (\<lambda>q. Inr (q * 100))
      else bind_exn (py_div (entry_price pos - current_price) (entry_price pos)) (\<lambda>q. Inr (q * 100)))"

text \<open>
  \<open>record_trade\<close>; \<open>today\<close> is the key \<open>now.strftime('%Y-%m-%d')\<close>.  The list of opening
  timestamps is not modelled.  The log line formats \<open>pnl\<close> when \<open>exit_price\<close> is truthy,
  which raises for \<open>pnl = None\<close>; the \<open>except\<close> clause then returns \<open>None\<close>, after the
  ledger has been written.
\<close>

definition record_trade ::
  "risk_manager \<Rightarrow> string \<Rightarrow> string \<Rightarrow> string \<Rightarrow> real \<Rightarrow> real \<Rightarrow> real option \<Rightarrow> real option
     \<Rightarrow> string \<Rightarrow> risk_manager \<times> trade_info option" where
  "record_trade rm today symb sd qty entry exit_p pnl_v ttype =
     (let info = \<lparr> trade_symbol = symb, trade_side = sd, trade_quantity = qty,
                   trade_entry_price = entry, exit_price = exit_p, pnl = pnl_v,
                   trade_type = ttype \<rparr>;
          d0 = (case daily_pnl rm today of
                  None \<Rightarrow> \<lparr> total_pnl = 0, trade_count = 0, win_count = 0, loss_count = 0 \<rparr>
                | Some d \<Rightarrow> d);
          d1 = d0\<lparr>trade_count := trade_count d0 + 1\<rparr>;
          d2 = (case pnl_v of
                  Some v \<Rightarrow>
                    if ttype = ''CLOSE'' \<or> ttype = ''SL'' \<or> ttype = ''TP''
                    then (if 0 < v
                          then d1\<lparr>total_pnl := total_pnl d1 + v, win_count := win_count d1 + 1\<rparr>
                          else d1\<lparr>total_pnl := total_pnl d1 + v, loss_count := loss_count d1 + 1\<rparr>)
                    else d1
                | None \<Rightarrow> d1);
          rm' = rm\<lparr>position_history := position_history rm @ [info],
                    daily_pnl := (daily_pnl rm)(today \<mapsto> d2)\<rparr>
      in if (case exit_p of Some x \<Rightarrow> x \<noteq> 0 | None \<Rightarrow> False) \<and> pnl_v = None
         then (rm', None)
         else (rm', Some info))"

text \<open>
  The bookkeeping of the position manager.  Of an active trade only the keys that the
  modelled functions read or write are kept; \<open>partially_closed\<close> is \<open>False\<close> while the key
  is absent.  An order reply of the gateway is the dictionary the venue returned, with its
  numeric fields already parsed; \<open>None\<close> stands for a falsy reply.
\<close>

record active_trade =
  quantity :: real
  stop_loss :: real
  partially_closed :: bool

record stop_order =
  order_id :: "int option"
  price :: real
  stop_quantity :: real

record order_result =
  orderId :: "int option"
  avgPrice :: "real option"
  executedQty :: "real option"

record position_manager =
  risk :: risk_manager
  pm_strategy :: strategy
  active_trades :: "string \<rightharpoonup> active_trade"
  stop_orders :: "string \<rightharpoonup> stop_order"

text \<open>
  \<open>update_stop_loss\<close>.  \<open>precision\<close> is the answer of \<open>get_symbol_precision\<close> and
  \<open>stop_reply\<close> the answer of \<open>create_stop_market_order\<close>.  Cancelling the pending
  orders changes nothing in the bookkeeping and cannot raise.
\<close>

definition update_stop_loss ::
  "position_manager \<Rightarrow> exn + symbol_info \<Rightarrow> exn + order_result option \<Rightarrow> string \<Rightarrow> real
     \<Rightarrow> position_manager \<times> stop_order option" where
  "update_stop_loss pm precision stop_reply symb new_stop_price =
     (case get_position_for_symbol (risk pm) symb of
        None \<Rightarrow> (pm, None)
      | Some pos \<Rightarrow>
          (case precision of
             Inl e \<Rightarrow> (pm, None)
           | Inr info \<Rightarrow>
               let rounded = py_round new_stop_price (price_precision info) in
               (case stop_reply of
                  Inl e \<Rightarrow> (pm, None)
                | Inr None \<Rightarrow> (pm, None)
                | Inr (Some order) \<Rightarrow>
                    let so = \<lparr> order_id = orderId order, price = rounded,
                               stop_quantity = \<bar>amount pos\<bar> \<rparr>;
                        trades = (case active_trades pm symb of
                                    Some t \<Rightarrow> (active_trades pm)(symb \<mapsto> t\<lparr>stop_loss := rounded\<rparr>)
                                  | None \<Rightarrow> active_trades pm)
                    in (pm\<lparr>stop_orders := (stop_orders pm)(symb \<mapsto> so),
                            active_trades := trades\<rparr>, Some so))))"

text \<open>
  \<open>update_trailing_stop\<close>.  The candidate is compared with the stop on record and with the
  threshold as exact reals.  The code compares floats: where the exact values tie (stop
  99, price 100.5, interval 0.5 and distance 1 percent, both 99.495) the float threshold is
  99.49499999999999 and the code moves the stop.
\<close>

definition update_trailing_stop ::
  "position_manager \<Rightarrow> exn + symbol_info \<Rightarrow> exn + order_result option \<Rightarrow> string \<Rightarrow> real
     \<Rightarrow> position_manager \<times> stop_order option" where
  "update_trailing_stop pm precision stop_reply symb current_price =
     (case get_position_for_symbol (risk pm) symb of
        None \<Rightarrow> (pm, None)
      | Some pos \<Rightarrow>
          if \<not> trailing_sl (pm_strategy pm) then (pm, None)
          else
            (case stop_orders pm symb of
               None \<Rightarrow> (pm, None)
             | Some so \<Rightarrow>
                 let current_stop = price so;
                     trailing_distance = current_price * (trailing_sl_distance (pm_strategy pm) / 100)
                 in
                 if side pos = ''LONG'' then
                   let new_stop = current_price - trailing_distance in
                   if current_stop < new_stop
                      \<and> current_stop * (1 + trailing_sl_interval (pm_strategy pm) / 100) < new_stop
                   then (let pm' = fst (update_stop_loss pm precision stop_reply symb new_stop)
                         in (pm', stop_orders pm' symb))
                   else (pm, stop_orders pm symb)
                 else
                   let new_stop = current_price + trailing_distance in
                   if new_stop < current_stop
                      \<and> new_stop < current_stop * (1 - trailing_sl_interval (pm_strategy pm) / 100)
                   then (let pm' = fst (update_stop_loss pm precision stop_reply symb new_stop)
                         in (pm', stop_orders pm' symb))
                   else (pm, stop_orders pm symb)))"

text \<open>
  \<open>process_partial_close\<close>.  \<open>market_reply\<close> is the answer of \<open>create_market_order\<close>.
  The second component of the result is the reduce-only market order that was submitted
  (side and quantity), if any; the third is the returned ledger entry.
\<close>

definition process_partial_close ::
  "position_manager \<Rightarrow> string \<Rightarrow> exn + order_result option \<Rightarrow> string \<Rightarrow> real
     \<Rightarrow> position_manager \<times> (string \<times> real) option \<times> trade_info option" where
  "process_partial_close pm today market_reply symb current_price =
     (if \<not> partial_close_enabled (pm_strategy pm) then (pm, None, None)
      else
        (case get_position_for_symbol (risk pm) symb of
           None \<Rightarrow> (pm, None, None)
         | Some pos \<Rightarrow>
             (case calculate_position_pnl_percent pos current_price of
                Inl e \<Rightarrow> (pm, None, None)
              | Inr pnl_pct \<Rightarrow>
                  if partial_close_threshold (pm_strategy pm) < pnl_pct then
                    if (case active_trades pm symb of Some t \<Rightarrow> partially_closed t | None \<Rightarrow> False)
                    then (pm, None, None)
                    else
                      let close_pct = partial_close_percentage (pm_strategy pm);
                          close_qty = \<bar>amount pos\<bar> * (close_pct / 100);
                          close_side = (if side pos = ''LONG'' then ''SELL'' else ''BUY'')
                      in
                      (case market_reply of
                         Inl e \<Rightarrow> (pm, Some (close_side, close_qty), None)
                       | Inr None \<Rightarrow> (pm, Some (close_side, close_qty), None)
                       | Inr (Some order) \<Rightarrow>
                           let filled_price =
                                 (case avgPrice order of Some a \<Rightarrow> a | None \<Rightarrow> current_price);
                               filled_qty =
                                 (case executedQty order of Some q \<Rightarrow> q | None \<Rightarrow> close_qty);
                               pnl_v = (if side pos = ''LONG''
                                        then (filled_price - entry_price pos) * filled_qty
                                        else (entry_price pos - filled_price) * filled_qty);
                               recorded = record_trade (risk pm) today symb close_side filled_qty
                                            (entry_price pos) (Some filled_price) (Some pnl_v) ''TP'';
                               trades =
                                 (case active_trades pm symb of
                                    Some t \<Rightarrow>
                                      (active_trades pm)(symb \<mapsto>
                                         t\<lparr>partially_closed := True,
                                           quantity := quantity t - filled_qty\<rparr>)
                                  | None \<Rightarrow> active_trades pm)
                           in (pm\<lparr>risk := fst recorded, active_trades := trades\<rparr>,
                               Some (close_side, close_qty), snd recorded))
                  else (pm, None, None))))"

definition scenario_fixed_rm :: risk_manager where
  \<comment> \<open>scenario A with \<open>POSITION_SIZE_TYPE=FIXED\<close>\<close>
  "scenario_fixed_rm =
     scenario_A_rm\<lparr>strategy := default_strategy\<lparr>position_size_type := ''FIXED''\<rparr>\<rparr>"

subsection \<open>A small pool\<close>

definition pool_ops :: "(real \<times> string \<times> target_data) list" where
  "pool_ops = [(1, ''AAA'', [''score'' \<mapsto> 50]), (2, ''BBB'', [''score'' \<mapsto> 70])]"

definition scores :: "pool \<Rightarrow> real list" where
  "scores p = map (\<lambda>x. score_of (snd x)) (targets p)"

definition winning_pool :: pool where
  \<comment> \<open>a symbol at the top score, with five recorded successes\<close>
  "winning_pool =
     \<lparr> targets = [(''AAA'', [''score'' \<mapsto> 100])], max_pool_size = 100,
       attempt_failures = Map.empty,
       success_history =
         [''AAA'' \<mapsto> \<lparr> success_count = 5, last_success = 0, success_data = [] \<rparr>] \<rparr>"

definition ranked_pool_ops :: "(real \<times> string \<times> target_data) list" where
  "ranked_pool_ops =
     [(1, ''AAA'', [''score'' \<mapsto> 90]), (2, ''BBB'', [''score'' \<mapsto> 70]),
      (3, ''CCC'', [''score'' \<mapsto> 20])]"

definition cooling_pool :: pool where
  \<comment> \<open>scenario C: three failures of one symbol of a pool of three, the last at time 1000\<close>
  "cooling_pool =
     snd (record_attempt_failure 1000 ''AAA'' ''order rejected''
       (snd (record_attempt_failure 900 ''AAA'' ''order rejected''
         (snd (record_attempt_failure 800 ''AAA'' ''order rejected''
           (run_upserts ranked_pool_ops (new_pool 100)))))))"

subsection \<open>A tracked long position\<close>

definition long_position :: position where
  "long_position =
     \<lparr> symbol = ''AAA'', side = ''LONG'', amount = 10, entry_price = 100, mark_price = 103,
       leverage = 5 \<rparr>"

definition tracked_pm :: position_manager where
  \<comment> \<open>the position as \<open>open_position\<close> leaves it, with its stop at 98\<close>
  "tracked_pm =
     \<lparr> risk = scenario_A_rm\<lparr>open_positions := [long_position]\<rparr>,
       pm_strategy = default_strategy,
       active_trades = [''AAA'' \<mapsto> \<lparr> quantity = 10, stop_loss = 98, partially_closed = False \<rparr>],
       stop_orders = [''AAA'' \<mapsto> \<lparr> order_id = Some 1, price = 98, stop_quantity = 10 \<rparr>] \<rparr>"

definition accepted_order :: order_result where
  "accepted_order = \<lparr> orderId = Some 2, avgPrice = None, executedQty = None \<rparr>"

definition acknowledged_order :: order_result where
  \<comment> \<open>a reply that acknowledges the order before any fill\<close>
  "acknowledged_order = \<lparr> orderId = Some 3, avgPrice = Some 0, executedQty = Some 0 \<rparr>"

definition coarse_info :: symbol_info where
  \<comment> \<open>tick size 0.25, for which \<open>abs(int(log10(tickSize)))\<close> is 0\<close>
  "coarse_info =
     \<lparr> price_precision = 0, qty_precision = 0, min_qty = 1, tick_size = 0.25,
       min_notional = 5 \<rparr>"

definition unrounded_stop_pm :: position_manager where
  \<comment> \<open>a long position opened at 12.5 while \<open>get_symbol_precision\<close> failed inside
     \<open>calculate_stop_loss\<close>: \<open>open_position\<close> records the stop it was given, 12.25\<close>
  "unrounded_stop_pm =
     \<lparr> risk = scenario_A_rm\<lparr>open_positions :=
                [long_position\<lparr>entry_price := 12.5, mark_price := 12.5\<rparr>]\<rparr>,
       pm_strategy = default_strategy,
       active_trades =
         [''AAA'' \<mapsto> \<lparr> quantity = 10, stop_loss = 12.25, partially_closed = False \<rparr>],
       stop_orders = [''AAA'' \<mapsto> \<lparr> order_id = Some 1, price = 12.25, stop_quantity = 10 \<rparr>] \<rparr>"

section \<open>Verified properties\<close>

subsection \<open>Position sizing\<close>

lemma round_half_even_of_int: "round_half_even (of_int k) = k"
  by (simp add: round_half_even_def)

lemma scenario_A_sizing:
  "sizing_stage scenario_A_rm 100 98 ''LONG'' 80 = Inr (25000, Some 5)"
  by (simp add: sizing_stage_def scenario_A_rm_def default_strategy_def
        get_available_balance_def stop_loss_pct_def bind_exn_def py_div_def py_int_def)

lemma scenario_A_available: "get_available_balance scenario_A_rm = 10000"
  by (simp add: scenario_A_rm_def get_available_balance_def)

lemma scenario_A_quantity:
  "quantity_stage scenario_A_info 10000 100 25000 (Some 5) = Inr (125, 5)"
  by (simp add: quantity_stage_def scenario_A_info_def bind_exn_def cap_position_size_def
        py_div_def read_leverage_def py_round_def round_half_even_def)

lemma scenario_A_result:
  "calculate_position_size scenario_A_rm (Inr scenario_A_info) 100 98 ''LONG'' 80 = (125, 5)"
proof -
  have pm: "\<not> protection_mode scenario_A_rm" by (simp add: scenario_A_rm_def)
  show ?thesis
    using pm
    by (simp add: calculate_position_size_def position_size_body_def scenario_A_sizing
          scenario_A_available scenario_A_quantity bind_exn_def)
qed

text \<open>
  C1 (as amended).  In scenario A (LONG, strength 80, entry 100, stop 98, available balance
  10000, risk 1 percent, automatic leverage, maximal leverage 10), on a symbol with lot
  step 0.001, quantity precision 3 and minimal notional 5, the sizing stage yields the
  notional 25000 with leverage 5, the cap reduces the notional to 2500, and
  \<open>calculate_position_size\<close> returns the quantity 125 with leverage 5: the 25 units that
  2500 USDT buy at price 100, multiplied by the leverage.  On this input every float
  operation of the code is exact or rounds to the value computed here.
\<close>

theorem C1_scenario_A:
  "sizing_stage scenario_A_rm 100 98 ''LONG'' 80 = Inr (25000, Some 5)
   \<and> cap_position_size (get_available_balance scenario_A_rm) 25000 = 2500
   \<and> calculate_position_size scenario_A_rm (Inr scenario_A_info) 100 98 ''LONG'' 80 = (125, 5)"
  by (simp add: scenario_A_sizing scenario_A_available scenario_A_result cap_position_size_def)

text \<open>
  C1 as stated fails: on the inputs of scenario A, with lot step 0.001 and minimal notional
  5, the returned quantity is not 25.
\<close>

theorem C1_quantity_25_counterexample:
  "fst (calculate_position_size scenario_A_rm (Inr scenario_A_info) 100 98 ''LONG'' 80) \<noteq> 25"
  by (simp add: scenario_A_result)

text \<open>
  C4.  While protection mode is on, \<open>check_risk_limits\<close> returns false whatever the other
  limits are, and \<open>calculate_position_size\<close> returns size 0.
\<close>

theorem C4_protection_mode_blocks_entries:
  assumes "protection_mode rm"
  shows "check_risk_limits rm today = False
       \<and> fst (calculate_position_size rm precision entry stop signal_type signal_strength) = 0"
  using assms
  by (simp add: check_risk_limits_def risk_limits_body_def calculate_position_size_def
        position_size_body_def)

theorem C4_protection_mode_witness:
  "protection_mode (scenario_A_rm\<lparr>protection_mode := True\<rparr>)
   \<and> check_risk_limits (scenario_A_rm\<lparr>protection_mode := True\<rparr>) ''2025-01-01'' = False
   \<and> fst (calculate_position_size (scenario_A_rm\<lparr>protection_mode := True\<rparr>)
            (Inr scenario_A_info) 100 98 ''LONG'' 80) = 0"
proof -
  have h: "protection_mode (scenario_A_rm\<lparr>protection_mode := True\<rparr>)" by simp
  show ?thesis
    using h C4_protection_mode_blocks_entries
             [OF h, of "''2025-01-01''" "Inr scenario_A_info" 100 98 "''LONG''" 80]
    by simp
qed

lemma fixed_body_raises:
  assumes "\<not> protection_mode rm" and "position_size_type (strategy rm) = ''FIXED''"
  shows "\<exists>e. position_size_body rm precision entry stop signal_type signal_strength = Inl e"
  using assms
  by (cases precision)
     (simp_all add: position_size_body_def bind_exn_def sizing_stage_def quantity_stage_def
        read_leverage_def py_div_def)

text \<open>
  C10.  \<open>calculate_position_size\<close> returns a pair on every input.  Whenever a step of its
  body raises, the pair is \<open>(0, default_leverage)\<close>; this is the case for every input in
  the FIXED sizing mode, where reading the unassigned leverage raises.
\<close>

theorem C10_never_raises:
  "(position_size_body rm precision entry stop signal_type signal_strength = Inl e \<longrightarrow>
      calculate_position_size rm precision entry stop signal_type signal_strength
        = (0, default_leverage (strategy rm)))
   \<and> (position_size_type (strategy rm) = ''FIXED'' \<longrightarrow>
      calculate_position_size rm precision entry stop signal_type signal_strength
        = (0, default_leverage (strategy rm)))"
proof (intro conjI impI)
  assume "position_size_body rm precision entry stop signal_type signal_strength = Inl e"
  then show "calculate_position_size rm precision entry stop signal_type signal_strength
        = (0, default_leverage (strategy rm))"
    by (simp add: calculate_position_size_def)
next
  assume f: "position_size_type (strategy rm) = ''FIXED''"
  show "calculate_position_size rm precision entry stop signal_type signal_strength
        = (0, default_leverage (strategy rm))"
  proof (cases "protection_mode rm")
    case True
    then show ?thesis by (simp add: calculate_position_size_def position_size_body_def)
  next
    case False
    from fixed_body_raises [OF False f]
    obtain e' where "position_size_body rm precision entry stop signal_type signal_strength = Inl e'"
      by blast
    then show ?thesis by (simp add: calculate_position_size_def)
  qed
qed

theorem C10_never_raises_witness:
  "position_size_body scenario_fixed_rm (Inr scenario_A_info) 100 98 ''LONG'' 80
     = Inl UnboundLocalError
   \<and> position_size_type (strategy scenario_fixed_rm) = ''FIXED''
   \<and> calculate_position_size scenario_fixed_rm (Inr scenario_A_info) 100 98 ''LONG'' 80 = (0, 3)"
proof -
  have b: "position_size_body scenario_fixed_rm (Inr scenario_A_info) 100 98 ''LONG'' 80
             = Inl UnboundLocalError"
    by (simp add: position_size_body_def scenario_fixed_rm_def scenario_A_rm_def
          default_strategy_def scenario_A_info_def sizing_stage_def quantity_stage_def
          bind_exn_def read_leverage_def py_div_def cap_position_size_def
          get_available_balance_def)
  have f: "position_size_type (strategy scenario_fixed_rm) = ''FIXED''"
    by (simp add: scenario_fixed_rm_def)
  have d: "default_leverage (strategy scenario_fixed_rm) = 3"
    by (simp add: scenario_fixed_rm_def scenario_A_rm_def default_strategy_def)
  show ?thesis
    using b f d
      C10_never_raises [of scenario_fixed_rm "Inr scenario_A_info" 100 98 "''LONG''" 80
                           UnboundLocalError]
    by simp
qed

subsection \<open>Exchange gateway\<close>

lemma retry_loop_attempts:
  "fst (snd (retry_loop m func as (n, sl))) \<le> n + length as"
proof (induction as arbitrary: n sl)
  case Nil
  then show ?case by simp
next
  case (Cons a as)
  have step: "\<And>sl'. fst (snd (retry_loop m func as (Suc n, sl'))) \<le> Suc n + length as"
    using Cons.IH by blast
  show ?case
  proof (cases "func a")
    case (Returns r)
    then show ?thesis by simp
  next
    case (Raises e)
    then show ?thesis
      using step [of sl] step [of "sl @ [BackoffSleep (2 ^ nat a * 2)]"]
            step [of "sl @ [BackoffSleep (2 ^ nat a)]"]
      by (cases e) auto
  qed
qed

lemma api_retry_attempts_bounded:
  "int (fst (snd (api_retry c now func))) \<le> max 0 (max_retries c)"
proof -
  have "fst (snd (api_retry c now func)) = fst (snd (api_retry_undecorated c now func))"
    by (simp add: api_retry_def split: prod.splits)
  also have "\<dots> \<le> 0 + length [1 .. max_retries c]"
    unfolding api_retry_undecorated_def by (rule retry_loop_attempts)
  finally show ?thesis by simp
qed

lemma fail_fast_first_attempt:
  assumes "1 \<le> max_retries c" and "func 1 = Raises (BinanceAPIException (Some code))"
    and "code = - 2010 \<or> code = - 1121"
  shows "api_retry_undecorated c now func
           = (Inl (if code = - 2010 then AccountError else InputError), 1, rate_limit_gate c now)"
    and "api_retry c now func = (Inl CustomError, 1, rate_limit_gate c now)"
proof -
  have u: "[1 .. max_retries c] = 1 # [2 .. max_retries c]"
    using assms(1) by (simp add: upto_rec1)
  show a: "api_retry_undecorated c now func
           = (Inl (if code = - 2010 then AccountError else InputError), 1, rate_limit_gate c now)"
    using assms(2,3) by (auto simp add: api_retry_undecorated_def u)
  show "api_retry c now func = (Inl CustomError, 1, rate_limit_gate c now)"
    using assms(3) by (auto simp add: api_retry_def a exception_handler_def timer_decorator_def)
qed

lemma upto5: "[1 .. (5::int)] = [1, 2, 3, 4, 5]"
  by (simp add: upto.simps)

lemma default_retries: "max_retries default_client = 5"
  by (simp add: default_client_def)

lemma default_gate: "rate_limit_gate default_client 100 = []"
  by (simp add: rate_limit_gate_def default_client_def)

text \<open>
  C2.  When the venue answers the first attempt with the insufficient-balance code -2010
  or the invalid-symbol code -1121, the retry loop makes one attempt, sleeps for no
  backoff and raises \<open>AccountError\<close>, respectively \<open>InputError\<close>; the decorator
  \<open>exception_handler\<close> around \<open>api_retry\<close> catches either and raises \<open>CustomError\<close>, which
  is what the caller receives.
\<close>

theorem C2_fail_fast_error_is_rewrapped:
  "api_retry_undecorated default_client 100 (always_raises (BinanceAPIException (Some (- 2010))))
     = (Inl AccountError, 1, [])
   \<and> api_retry default_client 100 (always_raises (BinanceAPIException (Some (- 2010))))
     = (Inl CustomError, 1, [])
   \<and> api_retry_undecorated default_client 100 (always_raises (BinanceAPIException (Some (- 1121))))
     = (Inl InputError, 1, [])
   \<and> api_retry default_client 100 (always_raises (BinanceAPIException (Some (- 1121))))
     = (Inl CustomError, 1, [])"
proof -
  have m: "1 \<le> max_retries default_client" by (simp add: default_client_def)
  show ?thesis
    using fail_fast_first_attempt [OF m, of "always_raises (BinanceAPIException (Some (- 2010)))" "- 2010" 100]
          fail_fast_first_attempt [OF m, of "always_raises (BinanceAPIException (Some (- 1121)))" "- 1121" 100]
    by (simp add: always_raises_def default_gate)
qed

text \<open>
  C3.  With five retries and a venue that fails every attempt: on the weight-limit code
  -1003 the loop sleeps 4, 8, 16, 32 and 64 seconds and then ends, so that \<open>api_retry\<close>
  returns \<open>None\<close> and no error reaches the caller; the same holds for the clock-skew code
  -1021, without sleeps.  On another code the loop sleeps 2, 4, 8 and 16 seconds and raises
  \<open>APIError\<close> at the fifth attempt, which the decorator turns into \<open>CustomError\<close>.
\<close>

theorem C3_exhausted_retries_surface_no_error:
  "api_retry default_client 100 (always_raises (BinanceAPIException (Some (- 1003))))
     = (Inr None, 5, map BackoffSleep [4, 8, 16, 32, 64])
   \<and> api_retry default_client 100 (always_raises (BinanceAPIException (Some (- 1021))))
     = (Inr None, 5, [])
   \<and> api_retry default_client 100 (always_raises (BinanceAPIException (Some (- 1000))))
     = (Inl CustomError, 5, map BackoffSleep [2, 4, 8, 16])
   \<and> api_retry_undecorated default_client 100 (always_raises (BinanceAPIException (Some (- 1000))))
     = (Inl APIError, 5, map BackoffSleep [2, 4, 8, 16])"
  by (simp add: api_retry_def api_retry_undecorated_def default_gate default_retries upto5
        always_raises_def exception_handler_def timer_decorator_def)

subsection \<open>Opportunity pool\<close>

lemma store_target_distinct:
  "distinct (map fst ts) \<Longrightarrow> distinct (map fst (store_target t k d ts))"
  by (simp add: store_target_def distinct_update split: option.splits)

lemma evict_loop_valid:
  "\<forall>i\<in>set is. i < length st \<Longrightarrow>
     evict_loop st is ts = (None, filter (\<lambda>x. fst x \<notin> (\<lambda>i. fst (st ! i)) ` set is) ts)"
proof (induction "is" arbitrary: ts)
  case Nil
  then show ?case by simp
next
  case (Cons i "is")
  have "filter (\<lambda>x. fst x \<notin> (\<lambda>i. fst (st ! i)) ` set is) (AList.delete (fst (st ! i)) ts)
        = filter (\<lambda>x. fst x \<notin> (\<lambda>i. fst (st ! i)) ` set (i # is)) ts"
    by (auto simp add: AList.delete_eq intro: filter_cong)
  then show ?case using Cons by simp
qed

lemma keys_of_prefix:
  "k \<le> length st \<Longrightarrow> (\<lambda>i. fst (st ! i)) ` set [0 ..< k] = fst ` set (take k st)"
proof -
  assume "k \<le> length st"
  then have "set (take k st) = (!) st ` {0 ..< k}" by (simp add: nth_image)
  then show ?thesis by auto
qed

lemma filter_by_prefix_keys:
  assumes "distinct (map fst st)"
  shows "filter (\<lambda>x. fst x \<notin> fst ` set (take k st)) st = drop k st"
proof -
  have d: "distinct (map fst (take k st @ drop k st))" using assms by simp
  then have disj: "fst ` set (take k st) \<inter> fst ` set (drop k st) = {}"
    by (simp only: map_append distinct_append set_map)
  have a: "filter (\<lambda>x. fst x \<notin> fst ` set (take k st)) (take k st) = []"
    by (auto simp add: filter_empty_conv)
  have b: "filter (\<lambda>x. fst x \<notin> fst ` set (take k st)) (drop k st) = drop k st"
    using disj by (auto simp add: filter_id_conv)
  have "filter (\<lambda>x. fst x \<notin> fst ` set (take k st)) (take k st @ drop k st) = drop k st"
    by (simp only: filter_append a b append_Nil)
  then show ?thesis by simp
qed

lemma sorted_prefix_le_suffix:
  assumes "sorted (map f st)" and "x \<in> set (take k st)" and "y \<in> set (drop k st)"
  shows "f x \<le> f y"
proof -
  have "sorted (map f (take k st) @ map f (drop k st))"
    using assms(1) by (simp flip: map_append)
  then show ?thesis using assms(2,3) by (auto simp add: sorted_append)
qed

text \<open>The eviction on a table with distinct keys and a capacity that is not negative.\<close>

lemma eviction_step:
  fixes ts :: "(string \<times> target_data) list"
  assumes dist: "distinct (map fst ts)" and cap: "0 \<le> C" and over: "C < int (length ts)"
  defines "st \<equiv> sort_key (\<lambda>x. score_of (snd x)) ts"
  defines "k \<equiv> nat (int (length ts) - C)"
  shows "\<exists>ts'. evict_loop st [0 ..< k] ts = (None, ts')
          \<and> mset ts' = mset (drop k st) \<and> int (length ts') = C
          \<and> distinct (map fst ts') \<and> set ts' \<subseteq> set ts
          \<and> set ts - set ts' = set (take k st)"
proof -
  let ?P = "\<lambda>x. fst x \<notin> fst ` set (take k st)"
  have len: "length st = length ts" by (simp add: st_def)
  have k: "k \<le> length st" using cap over by (simp add: k_def len)
  have ms: "mset st = mset ts" by (simp add: st_def)
  have dst: "distinct (map fst st)"
  proof -
    have "mset (map fst st) = mset (map fst ts)" using ms by (metis mset_map)
    then show ?thesis using dist by (metis mset_eq_imp_distinct_iff)
  qed
  have ev: "evict_loop st [0 ..< k] ts = (None, filter ?P ts)"
    using evict_loop_valid [of "[0 ..< k]" st ts] k keys_of_prefix [OF k] by simp
  have m: "mset (filter ?P ts) = mset (drop k st)"
  proof -
    have "mset (filter ?P ts) = filter_mset ?P (mset st)" by (simp add: ms)
    also have "\<dots> = mset (filter ?P st)" by simp
    finally show ?thesis by (simp add: filter_by_prefix_keys [OF dst])
  qed
  have l: "int (length (filter ?P ts)) = C"
  proof -
    have "length (filter ?P ts) = length (drop k st)" using m by (metis size_mset)
    then show ?thesis using cap over by (simp add: len k_def)
  qed
  have sub: "set (filter ?P ts) \<subseteq> set ts" by auto
  have seteq: "set (filter ?P ts) = set (drop k st)" using m by (metis set_mset_mset)
  have dts: "distinct st" using dst by (simp add: distinct_map)
  have "set ts = set (take k st) \<union> set (drop k st)"
    using ms by (metis append_take_drop_id set_append set_mset_mset)
  moreover have "set (take k st) \<inter> set (drop k st) = {}"
    using dts by (metis append_take_drop_id distinct_append)
  ultimately have diff: "set ts - set (filter ?P ts) = set (take k st)"
    using seteq by auto
  show ?thesis
    using ev m l sub diff dist by (intro exI [of _ "filter ?P ts"]) (simp add: distinct_map_filter)
qed

lemma add_or_update_target_step:
  fixes p :: pool and t :: real and symb :: string and d :: target_data
  assumes dist: "distinct (map fst (targets p))" and cap: "0 \<le> max_pool_size p"
  defines "ts \<equiv> store_target t symb d (targets p)"
  defines "r \<equiv> add_or_update_target t symb d p"
  shows "fst r = None" and "max_pool_size (snd r) = max_pool_size p"
    and "distinct (map fst (targets (snd r)))"
    and "int (length (targets (snd r))) \<le> max_pool_size p"
    and "max_pool_size p < int (length ts) \<Longrightarrow> int (length (targets (snd r))) = max_pool_size p"
    and "\<not> max_pool_size p < int (length ts) \<Longrightarrow> targets (snd r) = ts"
    and "set (targets (snd r)) \<subseteq> set ts"
    and "\<And>x y. x \<in> set ts - set (targets (snd r)) \<Longrightarrow> y \<in> set (targets (snd r))
           \<Longrightarrow> score_of (snd x) \<le> score_of (snd y)"
proof -
  let ?C = "max_pool_size p"
  let ?st = "sort_key (\<lambda>x. score_of (snd x)) ts"
  let ?k = "nat (int (length ts) - ?C)"
  have dts: "distinct (map fst ts)" unfolding ts_def by (rule store_target_distinct [OF dist])
  have all: "fst r = None \<and> max_pool_size (snd r) = ?C \<and> distinct (map fst (targets (snd r)))
      \<and> int (length (targets (snd r))) \<le> ?C
      \<and> (?C < int (length ts) \<longrightarrow> int (length (targets (snd r))) = ?C)
      \<and> (\<not> ?C < int (length ts) \<longrightarrow> targets (snd r) = ts)
      \<and> set (targets (snd r)) \<subseteq> set ts
      \<and> (\<forall>x\<in>set ts - set (targets (snd r)). \<forall>y\<in>set (targets (snd r)).
            score_of (snd x) \<le> score_of (snd y))"
  proof (cases "?C < int (length ts)")
    case False
    then have "r = (None, p\<lparr>targets := ts\<rparr>)"
      by (simp add: r_def add_or_update_target_def ts_def Let_def)
    then show ?thesis using False dts by simp
  next
    case True
    from eviction_step [OF dts cap True]
    obtain ts' where ev: "evict_loop ?st [0 ..< ?k] ts = (None, ts')"
      and m: "mset ts' = mset (drop ?k ?st)" and l: "int (length ts') = ?C"
      and d: "distinct (map fst ts')" and sub: "set ts' \<subseteq> set ts"
      and diff: "set ts - set ts' = set (take ?k ?st)"
      by blast
    have r: "r = (None, p\<lparr>targets := ts'\<rparr>)"
      using True ev by (simp add: r_def add_or_update_target_def Let_def flip: ts_def)
    have seteq: "set ts' = set (drop ?k ?st)" using m by (metis set_mset_mset)
    have srt: "sorted (map (\<lambda>x. score_of (snd x)) ?st)" by simp
    have ord: "\<forall>x\<in>set ts - set ts'. \<forall>y\<in>set ts'. score_of (snd x) \<le> score_of (snd y)"
      using sorted_prefix_le_suffix [OF srt] diff seteq by blast
    show ?thesis using True r l d sub ord by simp
  qed
  show "fst r = None" and "max_pool_size (snd r) = max_pool_size p"
    and "distinct (map fst (targets (snd r)))"
    and "int (length (targets (snd r))) \<le> max_pool_size p"
    and "max_pool_size p < int (length ts) \<Longrightarrow> int (length (targets (snd r))) = max_pool_size p"
    and "\<not> max_pool_size p < int (length ts) \<Longrightarrow> targets (snd r) = ts"
    and "set (targets (snd r)) \<subseteq> set ts"
    and "\<And>x y. x \<in> set ts - set (targets (snd r)) \<Longrightarrow> y \<in> set (targets (snd r))
           \<Longrightarrow> score_of (snd x) \<le> score_of (snd y)"
    using all by blast+
qed

lemma run_upserts_invariant:
  assumes "distinct (map fst (targets p))" and "0 \<le> max_pool_size p"
    and "int (length (targets p)) \<le> max_pool_size p"
  shows "distinct (map fst (targets (run_upserts ops p)))
       \<and> max_pool_size (run_upserts ops p) = max_pool_size p
       \<and> int (length (targets (run_upserts ops p))) \<le> max_pool_size p"
  using assms
proof (induction ops arbitrary: p)
  case Nil
  then show ?case by simp
next
  case (Cons op ops)
  obtain t symb d where op: "op = (t, symb, d)" by (cases op) auto
  let ?q = "snd (add_or_update_target t symb d p)"
  have q: "distinct (map fst (targets ?q))" "max_pool_size ?q = max_pool_size p"
      "int (length (targets ?q)) \<le> max_pool_size p"
    using add_or_update_target_step [OF Cons.prems(1,2)] by blast+
  have "distinct (map fst (targets (run_upserts ops ?q)))
       \<and> max_pool_size (run_upserts ops ?q) = max_pool_size ?q
       \<and> int (length (targets (run_upserts ops ?q))) \<le> max_pool_size ?q"
    using Cons.IH [of ?q] q Cons.prems(2) by simp
  then show ?case using q by (simp add: op)
qed

text \<open>
  C5 (as amended).  Let the capacity \<open>C\<close> be at least 1 and let \<open>p\<close> be the pool after any
  sequence of upserts on the empty pool.  Then \<open>p\<close> holds at most \<open>C\<close> entries.  One more
  upsert raises nothing and leaves at most \<open>C\<close> entries; when the table \<open>ts\<close> with the stored
  entry has more than \<open>C\<close> entries, exactly \<open>C\<close> of them remain, and otherwise all of them;
  every evicted entry has a score that is at most the score of every remaining entry; and
  an entry whose score is strictly above all others remains.
\<close>

theorem C5_pool_bounded_eviction:
  assumes "1 \<le> C"
  shows "let p = run_upserts ops (new_pool C);
             ts = store_target t symb d (targets p);
             r = add_or_update_target t symb d p;
             ts' = targets (snd r)
         in int (length (targets p)) \<le> C
          \<and> fst r = None
          \<and> int (length ts') \<le> C
          \<and> (C < int (length ts) \<longrightarrow> int (length ts') = C)
          \<and> (\<not> C < int (length ts) \<longrightarrow> ts' = ts)
          \<and> set ts' \<subseteq> set ts
          \<and> (\<forall>x\<in>set ts - set ts'. \<forall>y\<in>set ts'. score_of (snd x) \<le> score_of (snd y))
          \<and> (\<forall>x\<in>set ts. (\<forall>y\<in>set ts. y \<noteq> x \<longrightarrow> score_of (snd y) < score_of (snd x))
                 \<longrightarrow> x \<in> set ts')"
proof -
  define p where "p = run_upserts ops (new_pool C)"
  define ts where "ts = store_target t symb d (targets p)"
  define r where "r = add_or_update_target t symb d p"
  define ts' where "ts' = targets (snd r)"
  have inv: "distinct (map fst (targets p))" "max_pool_size p = C" "int (length (targets p)) \<le> C"
    using run_upserts_invariant [of "new_pool C" ops] assms
    by (simp_all add: p_def new_pool_def)
  have cap: "0 \<le> max_pool_size p" using inv(2) assms by simp
  note step = add_or_update_target_step [OF inv(1) cap, where t = t and symb = symb and d = d,
      folded r_def ts_def ts'_def, unfolded inv(2)]
  have ord: "\<forall>x\<in>set ts - set ts'. \<forall>y\<in>set ts'. score_of (snd x) \<le> score_of (snd y)"
    using step(8) by blast
  have top: "\<forall>x\<in>set ts. (\<forall>y\<in>set ts. y \<noteq> x \<longrightarrow> score_of (snd y) < score_of (snd x))
                 \<longrightarrow> x \<in> set ts'"
  proof (intro ballI impI)
    fix x assume x: "x \<in> set ts"
      and best: "\<forall>y\<in>set ts. y \<noteq> x \<longrightarrow> score_of (snd y) < score_of (snd x)"
    show "x \<in> set ts'"
    proof (rule ccontr)
      assume nx: "x \<notin> set ts'"
      have "ts' \<noteq> []"
      proof (cases "C < int (length ts)")
        case True
        then show ?thesis using step(5) assms by auto
      next
        case False
        then show ?thesis using step(6) x nx by auto
      qed
      then obtain y where y: "y \<in> set ts'" by (cases ts') auto
      then have "y \<in> set ts" and "y \<noteq> x" using step(7) nx by auto
      then have "score_of (snd y) < score_of (snd x)" using best by blast
      moreover have "score_of (snd x) \<le> score_of (snd y)" using ord x nx y by blast
      ultimately show False by simp
    qed
  qed
  have "int (length (targets p)) \<le> C \<and> fst r = None \<and> int (length ts') \<le> C
          \<and> (C < int (length ts) \<longrightarrow> int (length ts') = C)
          \<and> (\<not> C < int (length ts) \<longrightarrow> ts' = ts)
          \<and> set ts' \<subseteq> set ts
          \<and> (\<forall>x\<in>set ts - set ts'. \<forall>y\<in>set ts'. score_of (snd x) \<le> score_of (snd y))
          \<and> (\<forall>x\<in>set ts. (\<forall>y\<in>set ts. y \<noteq> x \<longrightarrow> score_of (snd y) < score_of (snd x))
                 \<longrightarrow> x \<in> set ts')"
    using inv(3) step(1,4,5,6,7) ord top by blast
  then show ?thesis
    unfolding Let_def p_def [symmetric] ts_def [symmetric] r_def [symmetric] ts'_def [symmetric] .
qed

lemma small_pool_targets:
  "targets (run_upserts pool_ops (new_pool 2))
     = [(''AAA'', [''score'' \<mapsto> 50, ''last_update'' \<mapsto> 1]),
        (''BBB'', [''score'' \<mapsto> 70, ''last_update'' \<mapsto> 2])]"
  by (simp add: pool_ops_def new_pool_def add_or_update_target_def store_target_def)

lemma small_pool_capacity: "max_pool_size (run_upserts pool_ops (new_pool 2)) = 2"
  by (simp add: pool_ops_def new_pool_def add_or_update_target_def store_target_def)

lemma small_pool_failures: "attempt_failures (run_upserts pool_ops (new_pool 2)) = Map.empty"
  by (simp add: pool_ops_def new_pool_def add_or_update_target_def store_target_def)

lemma small_pool_store:
  "map fst (store_target 3 ''CCC'' [''score'' \<mapsto> 20] (targets (run_upserts pool_ops (new_pool 2))))
     = [''AAA'', ''BBB'', ''CCC'']"
  by (simp add: small_pool_targets store_target_def)

lemma small_pool_evicts:
  "map fst (targets (snd (add_or_update_target 3 ''CCC'' [''score'' \<mapsto> 20]
                            (run_upserts pool_ops (new_pool 2)))))
     = [''AAA'', ''BBB'']"
  by (simp add: add_or_update_target_def small_pool_targets small_pool_capacity store_target_def
        score_of_def AList.delete_eq upt_rec)

theorem C5_pool_bounded_eviction_witness:
  "(1::int) \<le> 2
   \<and> (let p = run_upserts pool_ops (new_pool 2);
          ts = store_target 3 ''CCC'' [''score'' \<mapsto> 20] (targets p);
          r = add_or_update_target 3 ''CCC'' [''score'' \<mapsto> 20] p;
          ts' = targets (snd r)
      in int (length (targets p)) \<le> 2
          \<and> fst r = None
          \<and> int (length ts') \<le> 2
          \<and> (2 < int (length ts) \<longrightarrow> int (length ts') = 2)
          \<and> (\<not> 2 < int (length ts) \<longrightarrow> ts' = ts)
          \<and> set ts' \<subseteq> set ts
          \<and> (\<forall>x\<in>set ts - set ts'. \<forall>y\<in>set ts'. score_of (snd x) \<le> score_of (snd y))
          \<and> (\<forall>x\<in>set ts. (\<forall>y\<in>set ts. y \<noteq> x \<longrightarrow> score_of (snd y) < score_of (snd x))
                 \<longrightarrow> x \<in> set ts'))
   \<and> map fst (store_target 3 ''CCC'' [''score'' \<mapsto> 20] (targets (run_upserts pool_ops (new_pool 2))))
       = [''AAA'', ''BBB'', ''CCC'']
   \<and> map fst (targets (snd (add_or_update_target 3 ''CCC'' [''score'' \<mapsto> 20]
                            (run_upserts pool_ops (new_pool 2)))))
       = [''AAA'', ''BBB'']"
proof -
  have h: "(1::int) \<le> 2" by simp
  show ?thesis
    by (intro conjI h C5_pool_bounded_eviction [OF h] small_pool_store small_pool_evicts)
qed

text \<open>
  C5 as stated fails for the capacity 0: the upsert of one symbol into the empty pool
  stores it, raises nothing, and evicts it, although it is the only entry and so the
  single highest-scored one.
\<close>

theorem C5_capacity_zero_counterexample:
  "map fst (store_target 1 ''AAA'' [''score'' \<mapsto> 50] (targets (new_pool 0))) = [''AAA'']
   \<and> fst (add_or_update_target 1 ''AAA'' [''score'' \<mapsto> 50] (new_pool 0)) = None
   \<and> targets (snd (add_or_update_target 1 ''AAA'' [''score'' \<mapsto> 50] (new_pool 0))) = []"
  by (simp add: add_or_update_target_def store_target_def new_pool_def AList.delete_eq)

lemma update_preserves:
  "\<forall>x\<in>set ts. P x \<Longrightarrow> P (k, v) \<Longrightarrow> \<forall>x\<in>set (AList.update k v ts). P x"
  by (induction ts) auto

text \<open>
  The penalty of \<open>record_attempt_failure\<close> keeps every score inside the interval from 0 to
  100, provided the failure count on record is not negative.
\<close>

lemma record_attempt_failure_keeps_bounds:
  assumes b: "\<forall>x\<in>set (targets p). 0 \<le> score_of (snd x) \<and> score_of (snd x) \<le> 100"
    and c: "\<forall>f. attempt_failures p symb = Some f \<longrightarrow> 0 \<le> failure_count f"
  shows "\<forall>x\<in>set (targets (snd (record_attempt_failure t symb reason p))).
           0 \<le> score_of (snd x) \<and> score_of (snd x) \<le> 100"
proof (cases "map_of (targets p) symb")
  case None
  then show ?thesis using b by (simp add: record_attempt_failure_def Let_def)
next
  case (Some d)
  then have din: "(symb, d) \<in> set (targets p)" by (rule map_of_SomeD)
  show ?thesis
  proof (cases "d ''score''")
    case None
    then show ?thesis using b Some by (simp add: record_attempt_failure_def Let_def)
  next
    case (Some sc)
    define k where "k = (case attempt_failures p symb of None \<Rightarrow> 1 | Some f0 \<Rightarrow> failure_count f0 + 1)"
    define pf :: real where "pf = min 0.5 (of_int k * 0.1)"
    have "0 \<le> k" using c by (simp add: k_def split: option.splits)
    then have pf: "0 \<le> pf" "pf \<le> 1 / 2" by (simp_all add: pf_def)
    have "score_of d = sc" using Some by (simp add: score_of_def)
    then have sc: "0 \<le> sc" "sc \<le> 100" using b din by force+
    have lo: "0 \<le> sc * (1 - pf)" using sc pf by simp
    have "sc * (1 - pf) \<le> sc * 1" using sc pf by (intro mult_left_mono) simp_all
    then have hi: "sc * (1 - pf) \<le> 100" using sc by simp
    have new: "0 \<le> score_of (snd (symb, d(''score'' \<mapsto> sc * (1 - pf))))
             \<and> score_of (snd (symb, d(''score'' \<mapsto> sc * (1 - pf)))) \<le> 100"
      using lo hi by (simp add: score_of_def)
    have res: "targets (snd (record_attempt_failure t symb reason p))
            = AList.update symb (d(''score'' \<mapsto> sc * (1 - pf))) (targets p)"
      using \<open>map_of (targets p) symb = Some d\<close> Some
      by (simp add: record_attempt_failure_def Let_def pf_def k_def split: option.splits)
    show ?thesis
      unfolding res by (rule update_preserves [OF b new])
  qed
qed

text \<open>
  C6.  A symbol at score 100 with five recorded successes: \<open>record_success\<close> raises nothing
  and multiplies the score by 1.3, which leaves it at 130, above 100.
\<close>

theorem C6_record_success_exceeds_100:
  "scores winning_pool = [100]
   \<and> fst (record_success 10 ''AAA'' None winning_pool) = None
   \<and> scores (snd (record_success 10 ''AAA'' None winning_pool)) = [130]"
  by (simp add: scores_def winning_pool_def record_success_def score_of_def)

lemma py_prefix_subset: "set (py_prefix n xs) \<subseteq> set xs"
  by (auto simp add: py_prefix_def dest: in_set_takeD)

lemma py_prefix_all: "int (length xs) \<le> n \<Longrightarrow> py_prefix n xs = xs"
  by (simp add: py_prefix_def)

lemma get_top_targets_subset:
  "set (get_top_targets now n ex p)
     \<subseteq> fst ` {x \<in> set (targets p). \<not> (ex \<and> is_symbol_cooling_down now (fst x) p)}"
proof -
  let ?av = "filter (\<lambda>x. \<not> (ex \<and> is_symbol_cooling_down now (fst x) p)) (targets p)"
  have "set (py_prefix n (sort_key (\<lambda>x. - score_of (snd x)) ?av)) \<subseteq> set ?av"
    using py_prefix_subset [of n "sort_key (\<lambda>x. - score_of (snd x)) ?av"] by simp
  then show ?thesis by (auto simp add: get_top_targets_def Let_def)
qed

lemma get_top_targets_all:
  assumes "int (length (targets p)) \<le> n"
  shows "set (get_top_targets now n ex p)
     = fst ` {x \<in> set (targets p). \<not> (ex \<and> is_symbol_cooling_down now (fst x) p)}"
proof -
  let ?av = "filter (\<lambda>x. \<not> (ex \<and> is_symbol_cooling_down now (fst x) p)) (targets p)"
  have "int (length (sort_key (\<lambda>x. - score_of (snd x)) ?av)) \<le> int (length (targets p))"
    by simp
  then have "int (length (sort_key (\<lambda>x. - score_of (snd x)) ?av)) \<le> n"
    using assms by linarith
  then have "py_prefix n (sort_key (\<lambda>x. - score_of (snd x)) ?av)
               = sort_key (\<lambda>x. - score_of (snd x)) ?av"
    by (rule py_prefix_all)
  then show ?thesis by (auto simp add: get_top_targets_def Let_def)
qed

text \<open>
  An entry of a list sorted by a key is among the first \<open>n\<close> entries when at most \<open>n\<close>
  entries have a key that is not above its own.
\<close>

lemma ranked_in_prefix:
  fixes k :: "'a \<Rightarrow> real"
  assumes x: "x \<in> set av"
    and few: "int (length (filter (\<lambda>y. k y \<le> k x) av)) \<le> n"
  shows "x \<in> set (py_prefix n (sort_key k av))"
proof -
  let ?st = "sort_key k av"
  let ?P = "\<lambda>y. k y \<le> k x"
  have "x \<in> set ?st" using x by simp
  then obtain i where i: "i < length ?st" and xi: "?st ! i = x"
    by (metis in_set_conv_nth)
  have srt: "sorted (map k ?st)" by simp
  have before: "\<forall>y\<in>set (take (Suc i) ?st). ?P y"
  proof
    fix y assume "y \<in> set (take (Suc i) ?st)"
    then obtain j where "j < length (take (Suc i) ?st)" and "take (Suc i) ?st ! j = y"
      by (metis in_set_conv_nth)
    then have j: "j < Suc i" and yj: "?st ! j = y" by simp_all
    have "map k ?st ! j \<le> map k ?st ! i"
      using srt j i by (intro sorted_nth_mono) simp_all
    then show "?P y" using j i xi yj by simp
  qed
  have "length (filter ?P ?st)
          = length (filter ?P (take (Suc i) ?st)) + length (filter ?P (drop (Suc i) ?st))"
    by (metis append_take_drop_id filter_append length_append)
  moreover have "filter ?P (take (Suc i) ?st) = take (Suc i) ?st"
    using before by (simp add: filter_id_conv)
  moreover have "length (take (Suc i) ?st) = Suc i" using i by simp
  ultimately have ge: "Suc i \<le> length (filter ?P ?st)" by simp
  have "mset (filter ?P ?st) = mset (filter ?P av)" by simp
  then have "length (filter ?P ?st) = length (filter ?P av)" by (metis size_mset)
  then have "int (Suc i) \<le> n" using ge few by linarith
  then have n: "0 \<le> n" and lt: "i < nat n" by simp_all
  have "i < length (take (nat n) ?st)" using i lt by simp
  moreover have "take (nat n) ?st ! i = x" using lt xi by simp
  ultimately have "x \<in> set (take (nat n) ?st)" by (metis nth_mem)
  then show ?thesis using n by (simp add: py_prefix_def)
qed

text \<open>
  C7.  Let the failure record of a symbol hold the count \<open>k\<close> and the time of the last
  failure.  While less than \<open>min(3600, k * 300)\<close> seconds have passed since then,
  \<open>get_top_targets\<close> with \<open>exclude_cooling\<close> does not return the symbol.  Once that window has
  elapsed, the symbol is returned whenever the ranking by score admits it: whenever at
  most as many entries as are requested are outside their cooldown and score at least as
  much as the entry of the symbol, that entry included.
\<close>

theorem C7_cooldown_window:
  assumes "attempt_failures p symb = Some f"
  shows "(now - last_failure f < of_int (min 3600 (failure_count f * 300))
            \<longrightarrow> symb \<notin> set (get_top_targets now n True p))
       \<and> (of_int (min 3600 (failure_count f * 300)) \<le> now - last_failure f
            \<and> (symb, d) \<in> set (targets p)
            \<and> int (length (filter (\<lambda>y. \<not> is_symbol_cooling_down now (fst y) p
                                       \<and> score_of d \<le> score_of (snd y)) (targets p))) \<le> n
            \<longrightarrow> symb \<in> set (get_top_targets now n True p))"
proof (intro conjI impI)
  assume "now - last_failure f < of_int (min 3600 (failure_count f * 300))"
  then have "is_symbol_cooling_down now symb p"
    using assms by (simp add: is_symbol_cooling_down_def)
  then show "symb \<notin> set (get_top_targets now n True p)"
    using get_top_targets_subset [of now n True p] by auto
next
  let ?av = "filter (\<lambda>x. \<not> (True \<and> is_symbol_cooling_down now (fst x) p)) (targets p)"
  let ?k = "\<lambda>x. - score_of (snd x)"
  assume a: "of_int (min 3600 (failure_count f * 300)) \<le> now - last_failure f
            \<and> (symb, d) \<in> set (targets p)
            \<and> int (length (filter (\<lambda>y. \<not> is_symbol_cooling_down now (fst y) p
                                       \<and> score_of d \<le> score_of (snd y)) (targets p))) \<le> n"
  then have "\<not> is_symbol_cooling_down now symb p"
    using assms by (simp add: is_symbol_cooling_down_def)
  then have x: "(symb, d) \<in> set ?av" using a by simp
  have "filter (\<lambda>y. ?k y \<le> ?k (symb, d)) ?av
          = filter (\<lambda>y. \<not> is_symbol_cooling_down now (fst y) p
                        \<and> score_of d \<le> score_of (snd y)) (targets p)"
    by (auto intro: filter_cong)
  then have few: "int (length (filter (\<lambda>y. ?k y \<le> ?k (symb, d)) ?av)) \<le> n"
    using a by simp
  have "(symb, d) \<in> set (py_prefix n (sort_key ?k ?av))"
    using x few by (rule ranked_in_prefix)
  then have "fst (symb, d) \<in> fst ` set (py_prefix n (sort_key ?k ?av))" by (rule imageI)
  then show "symb \<in> set (get_top_targets now n True p)"
    by (simp add: get_top_targets_def Let_def)
qed


lemma update_existing_keys:
  "map_of ts k = Some d \<Longrightarrow> map fst (AList.update k v ts) = map fst ts"
  by (induction ts) (auto split: if_splits)

lemma record_attempt_failure_failures:
  "attempt_failures (snd (record_attempt_failure t symb reason p))
     = (attempt_failures p)(symb \<mapsto>
         (case attempt_failures p symb of
            None \<Rightarrow> \<lparr> failure_count = 1, last_failure = t, reasons = [reason] \<rparr>
          | Some f0 \<Rightarrow> \<lparr> failure_count = failure_count f0 + 1, last_failure = t,
                       reasons = reasons f0 @ [reason] \<rparr>))"
  by (simp add: record_attempt_failure_def Let_def split: option.splits)

lemma record_attempt_failure_targets:
  assumes "map_of (targets p) symb = Some d" and "d ''score'' = Some sc"
    and "attempt_failures (snd (record_attempt_failure t symb reason p)) symb = Some f"
  shows "targets (snd (record_attempt_failure t symb reason p))
           = AList.update symb
               (d(''score'' \<mapsto> sc * (1 - min 0.5 (of_int (failure_count f) * 0.1))))
               (targets p)"
  using assms by (auto simp add: record_attempt_failure_def Let_def split: option.splits)

lemma ranked_pool_targets:
  "targets (run_upserts ranked_pool_ops (new_pool 100))
     = [(''AAA'', [''score'' \<mapsto> 90, ''last_update'' \<mapsto> 1]),
        (''BBB'', [''score'' \<mapsto> 70, ''last_update'' \<mapsto> 2]),
        (''CCC'', [''score'' \<mapsto> 20, ''last_update'' \<mapsto> 3])]"
  by (simp add: ranked_pool_ops_def new_pool_def add_or_update_target_def store_target_def)

lemma ranked_pool_failures:
  "attempt_failures (run_upserts ranked_pool_ops (new_pool 100)) = Map.empty"
  by (simp add: ranked_pool_ops_def new_pool_def add_or_update_target_def store_target_def)

lemma cooling_pool_failures:
  "attempt_failures cooling_pool
     = [''AAA'' \<mapsto> \<lparr> failure_count = 3, last_failure = 1000,
              reasons = [''order rejected'', ''order rejected'', ''order rejected''] \<rparr>]"
  by (simp add: cooling_pool_def record_attempt_failure_failures ranked_pool_failures)

lemma cooling_pool_targets:
  "targets cooling_pool
     = [(''AAA'', [''score'' \<mapsto> 90, ''last_update'' \<mapsto> 1, ''score'' \<mapsto> 45.36]),
        (''BBB'', [''score'' \<mapsto> 70, ''last_update'' \<mapsto> 2]),
        (''CCC'', [''score'' \<mapsto> 20, ''last_update'' \<mapsto> 3])]"
proof -
  let ?p0 = "run_upserts ranked_pool_ops (new_pool 100)"
  let ?p1 = "snd (record_attempt_failure 800 ''AAA'' ''order rejected'' ?p0)"
  let ?p2 = "snd (record_attempt_failure 900 ''AAA'' ''order rejected'' ?p1)"
  have t1: "targets ?p1
     = [(''AAA'', [''score'' \<mapsto> 90, ''last_update'' \<mapsto> 1, ''score'' \<mapsto> 81]),
        (''BBB'', [''score'' \<mapsto> 70, ''last_update'' \<mapsto> 2]),
        (''CCC'', [''score'' \<mapsto> 20, ''last_update'' \<mapsto> 3])]"
    by (subst record_attempt_failure_targets
          [where d = "[''score'' \<mapsto> 90, ''last_update'' \<mapsto> 1]" and sc = 90
             and f = "\<lparr> failure_count = 1, last_failure = 800, reasons = [''order rejected''] \<rparr>"])
       (simp_all add: ranked_pool_targets ranked_pool_failures record_attempt_failure_failures)
  have t2: "targets ?p2
     = [(''AAA'', [''score'' \<mapsto> 90, ''last_update'' \<mapsto> 1, ''score'' \<mapsto> 64.8]),
        (''BBB'', [''score'' \<mapsto> 70, ''last_update'' \<mapsto> 2]),
        (''CCC'', [''score'' \<mapsto> 20, ''last_update'' \<mapsto> 3])]"
    by (subst record_attempt_failure_targets
          [where d = "[''score'' \<mapsto> 90, ''last_update'' \<mapsto> 1, ''score'' \<mapsto> 81]" and sc = 81
             and f = "\<lparr> failure_count = 2, last_failure = 900,
                        reasons = [''order rejected'', ''order rejected''] \<rparr>"])
       (simp_all add: t1 ranked_pool_failures record_attempt_failure_failures)
  show ?thesis
    unfolding cooling_pool_def
    by (subst record_attempt_failure_targets
          [where d = "[''score'' \<mapsto> 90, ''last_update'' \<mapsto> 1, ''score'' \<mapsto> 64.8]"
             and sc = "64.8"
             and f = "\<lparr> failure_count = 3, last_failure = 1000,
                        reasons = [''order rejected'', ''order rejected'', ''order rejected''] \<rparr>"])
       (simp_all add: t2 ranked_pool_failures record_attempt_failure_failures)
qed


theorem C7_cooldown_window_witness:
  "attempt_failures cooling_pool ''AAA''
     = Some \<lparr> failure_count = 3, last_failure = 1000,
              reasons = [''order rejected'', ''order rejected'', ''order rejected''] \<rparr>
   \<and> length (targets cooling_pool) = 3
   \<and> ''AAA'' \<notin> set (get_top_targets 1500 2 True cooling_pool)
   \<and> ''AAA'' \<in> set (get_top_targets 2000 2 True cooling_pool)"
proof -
  let ?f = "\<lparr> failure_count = 3, last_failure = 1000,
              reasons = [''order rejected'', ''order rejected'', ''order rejected''] \<rparr>"
  let ?d = "[''score'' \<mapsto> 90, ''last_update'' \<mapsto> 1, ''score'' \<mapsto> 45.36] :: target_data"
  have f: "attempt_failures cooling_pool ''AAA'' = Some ?f"
    by (simp add: cooling_pool_failures)
  have len: "length (targets cooling_pool) = 3" by (simp add: cooling_pool_targets)
  have early: "''AAA'' \<notin> set (get_top_targets 1500 2 True cooling_pool)"
    using C7_cooldown_window [OF f, where now = 1500 and n = 2] by simp
  have elapsed: "of_int (min 3600 (failure_count ?f * 300)) \<le> (2000::real) - last_failure ?f"
    by simp
  have member: "(''AAA'', ?d) \<in> set (targets cooling_pool)"
    by (simp add: cooling_pool_targets)
  have rank: "int (length (filter (\<lambda>y. \<not> is_symbol_cooling_down 2000 (fst y) cooling_pool
                                       \<and> score_of ?d \<le> score_of (snd y))
                              (targets cooling_pool))) \<le> 2"
    by (simp add: cooling_pool_targets is_symbol_cooling_down_def cooling_pool_failures
          score_of_def)
  have late: "''AAA'' \<in> set (get_top_targets 2000 2 True cooling_pool)"
    using C7_cooldown_window [OF f, where now = 2000 and d = ?d and n = 2, THEN conjunct2]
      elapsed member rank by blast
  show ?thesis using f len early late by (intro conjI)
qed

subsection \<open>Position manager\<close>

lemma round_half_even_bounds: "\<lfloor>x\<rfloor> \<le> round_half_even x \<and> round_half_even x \<le> \<lfloor>x\<rfloor> + 1"
  by (simp add: round_half_even_def Let_def)

lemma round_half_even_mono:
  assumes "x \<le> y"
  shows "round_half_even x \<le> round_half_even y"
proof (cases "\<lfloor>x\<rfloor> = \<lfloor>y\<rfloor>")
  case True
  have "x - of_int \<lfloor>y\<rfloor> \<le> y - of_int \<lfloor>y\<rfloor>" using assms by simp
  then show ?thesis
    using True by (simp add: round_half_even_def Let_def)
next
  case False
  then have "\<lfloor>x\<rfloor> < \<lfloor>y\<rfloor>" using floor_mono [OF assms] by linarith
  then show ?thesis
    using round_half_even_bounds [of x] round_half_even_bounds [of y] by linarith
qed

lemma py_round_mono: "x \<le> y \<Longrightarrow> py_round x n \<le> py_round y n"
proof -
  assume "x \<le> y"
  then have "x * 10 ^ n \<le> y * 10 ^ n" by simp
  then have "round_half_even (x * 10 ^ n) \<le> round_half_even (y * 10 ^ n)"
    by (rule round_half_even_mono)
  then show ?thesis by (simp add: py_round_def divide_right_mono)
qed

lemma py_round_idem: "py_round (py_round x n) n = py_round x n"
  by (simp add: py_round_def round_half_even_of_int)


lemma update_stop_loss_stored:
  assumes "stop_orders pm symb = Some so"
  shows "\<exists>so'. stop_orders (fst (update_stop_loss pm precision stop_reply symb x)) symb = Some so'
           \<and> (so' = so \<or> (\<exists>info. precision = Inr info
                             \<and> price so' = py_round x (price_precision info)))"
  using assms
  by (auto simp add: update_stop_loss_def Let_def split: option.splits sum.splits)

text \<open>
  Over exact reals: from a stop on record that is already rounded to the price precision,
  the stop that \<open>update_trailing_stop\<close> leaves on record is either the same record or
  carries the rounded candidate, which is rounded again and lies on the favourable side.
\<close>

lemma trailing_stop_from_rounded_stop:
  assumes pos: "get_position_for_symbol (risk pm) symb = Some pos"
    and so: "stop_orders pm symb = Some so"
    and grid: "\<And>info. precision = Inr info \<Longrightarrow> py_round (price so) (price_precision info) = price so"
  shows "\<exists>so'. stop_orders (fst (update_trailing_stop pm precision stop_reply symb current_price)) symb
               = Some so'
     \<and> (\<forall>info. precision = Inr info \<longrightarrow> py_round (price so') (price_precision info) = price so')
     \<and> (so' = so \<or> (\<exists>info. precision = Inr info \<and> price so' =
            py_round (if side pos = ''LONG''
                      then current_price - current_price * (trailing_sl_distance (pm_strategy pm) / 100)
                      else current_price + current_price * (trailing_sl_distance (pm_strategy pm) / 100))
              (price_precision info)))
     \<and> (side pos = ''LONG'' \<longrightarrow> price so \<le> price so')
     \<and> (side pos \<noteq> ''LONG'' \<longrightarrow> price so' \<le> price so)"
proof -
  let ?s = "pm_strategy pm"
  let ?up = "current_price - current_price * (trailing_sl_distance ?s / 100)"
  let ?down = "current_price + current_price * (trailing_sl_distance ?s / 100)"
  let ?res = "fst (update_trailing_stop pm precision stop_reply symb current_price)"
  have keep: "?thesis" if "?res = pm"
    using that so grid by simp
  show ?thesis
  proof (cases "trailing_sl ?s")
    case False
    then have "?res = pm" using pos by (simp add: update_trailing_stop_def)
    then show ?thesis by (rule keep)
  next
    case on: True
    show ?thesis
    proof (cases "side pos = ''LONG''")
      case long: True
      show ?thesis
      proof (cases "price so < ?up \<and> price so * (1 + trailing_sl_interval ?s / 100) < ?up")
        case False
        then have "?res = pm"
          using pos so on long by (auto simp add: update_trailing_stop_def Let_def)
        then show ?thesis by (rule keep)
      next
        case True
        then have res: "?res = fst (update_stop_loss pm precision stop_reply symb ?up)"
          using pos so on long by (simp add: update_trailing_stop_def Let_def)
        from update_stop_loss_stored [OF so, of precision stop_reply ?up]
        obtain so' where st: "stop_orders ?res symb = Some so'"
          and alt: "so' = so \<or> (\<exists>info. precision = Inr info
                             \<and> price so' = py_round ?up (price_precision info))"
          unfolding res by blast
        from alt show ?thesis
        proof
          assume "so' = so"
          then show ?thesis using st grid by simp
        next
          assume new: "\<exists>info. precision = Inr info \<and> price so' = py_round ?up (price_precision info)"
          then obtain info where i: "precision = Inr info"
            and p: "price so' = py_round ?up (price_precision info)" by blast
          have "py_round (price so) (price_precision info) \<le> py_round ?up (price_precision info)"
            using True by (intro py_round_mono) simp
          then have le: "price so \<le> price so'" using grid [OF i] p by simp
          have g: "\<forall>info'. precision = Inr info' \<longrightarrow>
                     py_round (price so') (price_precision info') = price so'"
            using i p by (simp add: py_round_idem)
          show ?thesis using st le g long new by auto
        qed
      qed
    next
      case short: False
      show ?thesis
      proof (cases "?down < price so \<and> ?down < price so * (1 - trailing_sl_interval ?s / 100)")
        case False
        then have "?res = pm"
          using pos so on short by (auto simp add: update_trailing_stop_def Let_def)
        then show ?thesis by (rule keep)
      next
        case True
        then have res: "?res = fst (update_stop_loss pm precision stop_reply symb ?down)"
          using pos so on short by (simp add: update_trailing_stop_def Let_def)
        from update_stop_loss_stored [OF so, of precision stop_reply ?down]
        obtain so' where st: "stop_orders ?res symb = Some so'"
          and alt: "so' = so \<or> (\<exists>info. precision = Inr info
                             \<and> price so' = py_round ?down (price_precision info))"
          unfolding res by blast
        from alt show ?thesis
        proof
          assume "so' = so"
          then show ?thesis using st grid by simp
        next
          assume new: "\<exists>info. precision = Inr info \<and> price so' = py_round ?down (price_precision info)"
          then obtain info where i: "precision = Inr info"
            and p: "price so' = py_round ?down (price_precision info)" by blast
          have "py_round ?down (price_precision info) \<le> py_round (price so) (price_precision info)"
            using True by (intro py_round_mono) simp
          then have le: "price so' \<le> price so" using grid [OF i] p by simp
          have g: "\<forall>info'. precision = Inr info' \<longrightarrow>
                     py_round (price so') (price_precision info') = price so'"
            using i p by (simp add: py_round_idem)
          show ?thesis using st le g short new by auto
        qed
      qed
    qed
  qed
qed

lemma tracked_position:
  "get_position_for_symbol (risk tracked_pm) ''AAA'' = Some long_position"
  by (simp add: get_position_for_symbol_def tracked_pm_def long_position_def)

lemma tracked_stop:
  "stop_orders tracked_pm ''AAA'' = Some \<lparr> order_id = Some 1, price = 98, stop_quantity = 10 \<rparr>"
  by (simp add: tracked_pm_def)

lemma tracked_trade:
  "active_trades tracked_pm ''AAA''
     = Some \<lparr> quantity = 10, stop_loss = 98, partially_closed = False \<rparr>"
  by (simp add: tracked_pm_def)

lemma tracked_strategy: "pm_strategy tracked_pm = default_strategy"
  by (simp add: tracked_pm_def)

lemma tracked_trailing_moves:
  "stop_orders (fst (update_trailing_stop tracked_pm (Inr scenario_A_info)
                       (Inr (Some accepted_order)) ''AAA'' 103)) ''AAA''
     = Some \<lparr> order_id = Some 2, price = 101.97, stop_quantity = 10 \<rparr>"
  by (simp add: update_trailing_stop_def update_stop_loss_def tracked_position tracked_stop
        tracked_trade tracked_strategy default_strategy_def long_position_def
        scenario_A_info_def accepted_order_def py_round_def round_half_even_def Let_def)

lemma fallback_stop_loss:
  "calculate_stop_loss scenario_A_rm (Inl CustomError) 12.5 ''LONG'' 1 = 12.25"
  by (simp add: calculate_stop_loss_def scenario_A_rm_def default_strategy_def)

lemma rounded_stop_loss:
  "calculate_stop_loss scenario_A_rm (Inr coarse_info) 12.5 ''LONG'' 1 = 12"
  by (simp add: calculate_stop_loss_def scenario_A_rm_def default_strategy_def coarse_info_def
        py_round_def round_half_even_def)

text \<open>
  C8.  A LONG position is opened at the price 12.5 on a symbol with tick size 0.25 and price
  precision 0 while \<open>get_symbol_precision\<close> fails inside \<open>calculate_stop_loss\<close>: the stop
  returned and put on record is the unrounded 12.25.  At the next call of
  \<open>update_trailing_stop\<close>, still at the price 12.5, the candidate 12.375 exceeds both the stop
  on record and the threshold 12.31125, and the stop that is stored is the candidate rounded
  to 12: the stop of the LONG position has moved down.
\<close>

theorem C8_unrounded_stop_is_lowered:
  "calculate_stop_loss scenario_A_rm (Inl CustomError) 12.5 ''LONG'' 1 = 12.25
   \<and> get_position_for_symbol (risk unrounded_stop_pm) ''AAA''
     = Some (long_position\<lparr>entry_price := 12.5, mark_price := 12.5\<rparr>)
   \<and> stop_orders unrounded_stop_pm ''AAA''
     = Some \<lparr> order_id = Some 1, price = 12.25, stop_quantity = 10 \<rparr>
   \<and> stop_orders (fst (update_trailing_stop unrounded_stop_pm (Inr coarse_info)
                         (Inr (Some accepted_order)) ''AAA'' 12.5)) ''AAA''
     = Some \<lparr> order_id = Some 2, price = 12, stop_quantity = 10 \<rparr>"
proof -
  have p: "get_position_for_symbol (risk unrounded_stop_pm) ''AAA''
             = Some (long_position\<lparr>entry_price := 12.5, mark_price := 12.5\<rparr>)"
    by (simp add: get_position_for_symbol_def unrounded_stop_pm_def long_position_def)
  have s: "stop_orders unrounded_stop_pm ''AAA''
             = Some \<lparr> order_id = Some 1, price = 12.25, stop_quantity = 10 \<rparr>"
    by (simp add: unrounded_stop_pm_def)
  have st: "pm_strategy unrounded_stop_pm = default_strategy"
    and at: "active_trades unrounded_stop_pm ''AAA''
               = Some \<lparr> quantity = 10, stop_loss = 12.25, partially_closed = False \<rparr>"
    by (simp_all add: unrounded_stop_pm_def)
  have "stop_orders (fst (update_trailing_stop unrounded_stop_pm (Inr coarse_info)
                         (Inr (Some accepted_order)) ''AAA'' 12.5)) ''AAA''
     = Some \<lparr> order_id = Some 2, price = 12, stop_quantity = 10 \<rparr>"
    by (simp add: update_trailing_stop_def update_stop_loss_def p s st at default_strategy_def
          long_position_def coarse_info_def accepted_order_def py_round_def
          round_half_even_def Let_def)
  then show ?thesis using fallback_stop_loss p s by (intro conjI)
qed

text \<open>
  C9 (as amended).  For a position that the position manager tracks in \<open>active_trades\<close>:
  once \<open>partially_closed\<close> is set, \<open>process_partial_close\<close> submits no order and changes
  nothing, whatever the price and the answer of the venue.  Before that, when partial
  closing is enabled, the profit exceeds the threshold and the venue accepts the order,
  the order submitted is for \<open>partial_close_percentage\<close> percent of the position's amount,
  the flag is set, and the tracked quantity is reduced by the \<open>executedQty\<close> of the reply,
  or by the quantity of the order when the reply has none.
\<close>

theorem C9_partial_close_once:
  assumes "active_trades pm symb = Some t"
  shows "(partially_closed t \<longrightarrow>
            process_partial_close pm today market_reply symb current_price = (pm, None, None))
       \<and> (\<not> partially_closed t \<and> partial_close_enabled (pm_strategy pm)
            \<and> get_position_for_symbol (risk pm) symb = Some pos
            \<and> calculate_position_pnl_percent pos current_price = Inr pnl_pct
            \<and> partial_close_threshold (pm_strategy pm) < pnl_pct
            \<and> market_reply = Inr (Some order)
          \<longrightarrow> fst (snd (process_partial_close pm today market_reply symb current_price))
                = Some (if side pos = ''LONG'' then ''SELL'' else ''BUY'',
                        \<bar>amount pos\<bar> * (partial_close_percentage (pm_strategy pm) / 100))
            \<and> active_trades (fst (process_partial_close pm today market_reply symb current_price))
                  symb
                = Some (t\<lparr>partially_closed := True,
                          quantity := quantity t
                            - (case executedQty order of
                                 Some q \<Rightarrow> q
                               | None \<Rightarrow> \<bar>amount pos\<bar>
                                          * (partial_close_percentage (pm_strategy pm) / 100))\<rparr>))"
proof (intro conjI impI)
  assume "partially_closed t"
  then show "process_partial_close pm today market_reply symb current_price = (pm, None, None)"
    using assms
    by (simp add: process_partial_close_def split: option.splits sum.splits)
next
  assume a: "\<not> partially_closed t \<and> partial_close_enabled (pm_strategy pm)
            \<and> get_position_for_symbol (risk pm) symb = Some pos
            \<and> calculate_position_pnl_percent pos current_price = Inr pnl_pct
            \<and> partial_close_threshold (pm_strategy pm) < pnl_pct
            \<and> market_reply = Inr (Some order)"
  then show "fst (snd (process_partial_close pm today market_reply symb current_price))
                = Some (if side pos = ''LONG'' then ''SELL'' else ''BUY'',
                        \<bar>amount pos\<bar> * (partial_close_percentage (pm_strategy pm) / 100))"
    using assms by (simp add: process_partial_close_def Let_def)
  from a show "active_trades (fst (process_partial_close pm today market_reply symb current_price))
                  symb
                = Some (t\<lparr>partially_closed := True,
                          quantity := quantity t
                            - (case executedQty order of
                                 Some q \<Rightarrow> q
                               | None \<Rightarrow> \<bar>amount pos\<bar>
                                          * (partial_close_percentage (pm_strategy pm) / 100))\<rparr>)"
    using assms by (simp add: process_partial_close_def Let_def split: option.splits)
qed

lemma long_position_fields:
  "side long_position = ''LONG''" "amount long_position = 10" "entry_price long_position = 100"
  by (simp_all add: long_position_def)

lemma tracked_pnl: "calculate_position_pnl_percent long_position 103 = Inr 3"
  by (simp add: calculate_position_pnl_percent_def long_position_def bind_exn_def py_div_def)

theorem C9_partial_close_once_witness:
  "active_trades tracked_pm ''AAA''
     = Some \<lparr> quantity = 10, stop_loss = 98, partially_closed = False \<rparr>
   \<and> fst (snd (process_partial_close tracked_pm ''2025-01-01'' (Inr (Some accepted_order))
                 ''AAA'' 103))
       = Some (''SELL'', 5)
   \<and> active_trades (fst (process_partial_close tracked_pm ''2025-01-01''
                           (Inr (Some accepted_order)) ''AAA'' 103)) ''AAA''
       = Some \<lparr> quantity = 5, stop_loss = 98, partially_closed = True \<rparr>
   \<and> process_partial_close
         (fst (process_partial_close tracked_pm ''2025-01-01'' (Inr (Some accepted_order))
                 ''AAA'' 103))
         ''2025-01-01'' (Inr (Some accepted_order)) ''AAA'' 104
       = (fst (process_partial_close tracked_pm ''2025-01-01'' (Inr (Some accepted_order))
                 ''AAA'' 103), None, None)"
proof -
  let ?first = "process_partial_close tracked_pm ''2025-01-01'' (Inr (Some accepted_order))
                  ''AAA'' 103"
  have pre: "\<not> partially_closed \<lparr> quantity = 10, stop_loss = 98, partially_closed = False \<rparr>
       \<and> partial_close_enabled (pm_strategy tracked_pm)
       \<and> get_position_for_symbol (risk tracked_pm) ''AAA'' = Some long_position
       \<and> calculate_position_pnl_percent long_position 103 = Inr 3
       \<and> partial_close_threshold (pm_strategy tracked_pm) < 3
       \<and> Inr (Some accepted_order) = (Inr (Some accepted_order) :: exn + order_result option)"
    by (simp add: tracked_position tracked_pnl tracked_strategy default_strategy_def)
  note first = C9_partial_close_once [OF tracked_trade, of "''2025-01-01''"
      "Inr (Some accepted_order)" 103 long_position 3 accepted_order, THEN conjunct2, rule_format,
      OF pre]
  have order: "fst (snd ?first) = Some (''SELL'', 5)"
    using first [THEN conjunct1]
    by (simp add: long_position_def tracked_strategy default_strategy_def)
  have trade: "active_trades (fst ?first) ''AAA''
                 = Some \<lparr> quantity = 5, stop_loss = 98, partially_closed = True \<rparr>"
    using first [THEN conjunct2]
    by (simp add: long_position_def tracked_strategy default_strategy_def accepted_order_def)
  have flag: "partially_closed \<lparr> quantity = 5, stop_loss = 98, partially_closed = True \<rparr>"
    by simp
  have later: "process_partial_close (fst ?first) ''2025-01-01'' (Inr (Some accepted_order))
                 ''AAA'' 104 = (fst ?first, None, None)"
    using C9_partial_close_once [OF trade, of "''2025-01-01''" "Inr (Some accepted_order)" 104,
            THEN conjunct1, rule_format, OF flag] .
  show ?thesis using tracked_trade order trade later by (intro conjI)
qed

text \<open>
  C9 as stated fails on a reply that acknowledges the order with \<open>executedQty = 0\<close>: the
  order for 5 of the 10 units is submitted and the flag is set, but the tracked quantity
  stays at 10.
\<close>

theorem C9_unfilled_reply_counterexample:
  "active_trades tracked_pm ''AAA''
     = Some \<lparr> quantity = 10, stop_loss = 98, partially_closed = False \<rparr>
   \<and> partial_close_percentage (pm_strategy tracked_pm) = 50
   \<and> fst (snd (process_partial_close tracked_pm ''2025-01-01'' (Inr (Some acknowledged_order))
                 ''AAA'' 103))
       = Some (''SELL'', 5)
   \<and> active_trades (fst (process_partial_close tracked_pm ''2025-01-01''
                           (Inr (Some acknowledged_order)) ''AAA'' 103)) ''AAA''
       = Some \<lparr> quantity = 10, stop_loss = 98, partially_closed = True \<rparr>"
proof -
  have pct: "partial_close_percentage (pm_strategy tracked_pm) = 50"
    by (simp add: tracked_strategy default_strategy_def)
  have en: "partial_close_enabled (pm_strategy tracked_pm)"
    and th: "partial_close_threshold (pm_strategy tracked_pm) = 2"
    by (simp_all add: tracked_strategy default_strategy_def)
  have order: "fst (snd (process_partial_close tracked_pm ''2025-01-01''
                     (Inr (Some acknowledged_order)) ''AAA'' 103)) = Some (''SELL'', 5)"
    by (simp add: process_partial_close_def tracked_position tracked_pnl tracked_trade en th pct
          Let_def long_position_fields)
  have trade: "active_trades (fst (process_partial_close tracked_pm ''2025-01-01''
                           (Inr (Some acknowledged_order)) ''AAA'' 103)) ''AAA''
       = Some \<lparr> quantity = 10, stop_loss = 98, partially_closed = True \<rparr>"
    by (simp add: process_partial_close_def tracked_position tracked_pnl tracked_trade en th pct
          Let_def long_position_fields acknowledged_order_def)
  show ?thesis using tracked_trade pct order trade by (intro conjI)
qed

end
